theory Spec2Isabelle
  imports Main "HOL-Library.Word"
begin

section \<open>Data model of the sketch SI4735_03_STM32_ALL_IN_ONE_OLED.ino\<close>

text \<open>
  The sketch is a set of global variables, the functions that change them, and calls into
  three collaborators: the tuner object \<open>si4735\<close>, the display object \<open>oled\<close> and the
  Arduino runtime (\<open>delay\<close>, \<open>pinMode\<close>, \<open>attachInterrupt\<close>). The model is a record of the
  globals together with the ordered list of every call made to a collaborator; a function
  of the sketch is a function from state to state. Values read back from the hardware
  (\<open>getFrequency\<close>, \<open>getVolume\<close>, \<open>digitalRead\<close>, the \<open>millis\<close> comparisons) are inputs.
\<close>

text \<open>The \<open>#define\<close>d band types (lines 74-77) and receiver modes (lines 108-111).\<close>

datatype bandType = FM_BAND_TYPE | MW_BAND_TYPE | SW_BAND_TYPE | LW_BAND_TYPE

datatype mode = FM | LSB | USB | AM

text \<open>The numeric value of a mode, as it is passed to \<open>si4735.setSSB\<close>.\<close>

fun modeCode :: "mode \<Rightarrow> 8 word" where
  "modeCode FM = 0"
| "modeCode LSB = 1"
| "modeCode USB = 2"
| "modeCode AM = 3"

text \<open>The table \<open>bandModeDesc\<close> (line 116), indexed by the mode.\<close>

fun bandModeDesc :: "mode \<Rightarrow> string" where
  "bandModeDesc FM = ''FM ''"
| "bandModeDesc LSB = ''LSB''"
| "bandModeDesc USB = ''USB''"
| "bandModeDesc AM = ''AM ''"

text \<open>
  The struct \<open>Band\<close> (lines 149-156). Its last field is \<open>currentStep\<close> in the source; it is
  \<open>band_currentStep\<close> here because the global variable \<open>currentStep\<close> has the same name.
\<close>

record Band =
  bandType :: bandType
  minimumFreq :: "16 word"
  maximumFreq :: "16 word"
  currentFreq :: "16 word"
  band_currentStep :: "16 word"

definition mkBand :: "bandType \<Rightarrow> 16 word \<Rightarrow> 16 word \<Rightarrow> 16 word \<Rightarrow> 16 word \<Rightarrow> Band" where
  "mkBand t lo hi cur st =
     \<lparr>bandType = t, minimumFreq = lo, maximumFreq = hi, currentFreq = cur, band_currentStep = st\<rparr>"

text \<open>The initial band table (lines 161-182).\<close>

definition bandTable :: "Band list" where
  "bandTable =
    [mkBand FM_BAND_TYPE 8400 10800 10570 10,
     mkBand LW_BAND_TYPE 100 510 300 1,
     mkBand MW_BAND_TYPE 520 1720 810 10,
     mkBand SW_BAND_TYPE 1800 3500 1900 1,
     mkBand SW_BAND_TYPE 3500 4500 3700 1,
     mkBand SW_BAND_TYPE 4500 5500 4850 5,
     mkBand SW_BAND_TYPE 5600 6300 6000 5,
     mkBand SW_BAND_TYPE 6800 7800 7200 5,
     mkBand SW_BAND_TYPE 9200 10000 9600 5,
     mkBand SW_BAND_TYPE 10000 11000 10100 1,
     mkBand SW_BAND_TYPE 11200 12500 11940 5,
     mkBand SW_BAND_TYPE 13400 13900 13600 5,
     mkBand SW_BAND_TYPE 14000 14500 14200 1,
     mkBand SW_BAND_TYPE 15000 15900 15300 5,
     mkBand SW_BAND_TYPE 17200 17900 17600 5,
     mkBand SW_BAND_TYPE 18000 18300 18100 1,
     mkBand SW_BAND_TYPE 21000 21900 21200 1,
     mkBand SW_BAND_TYPE 24890 26200 24940 1,
     mkBand SW_BAND_TYPE 26200 27900 27500 1,
     mkBand SW_BAND_TYPE 28000 30000 28400 1]"

text \<open>\<open>lastBand = (sizeof band / sizeof(Band)) - 1\<close> (line 184).\<close>

definition lastBand :: int where
  "lastBand = int (length bandTable) - 1"

text \<open>The input pins (lines 89-101).\<close>

datatype pin =
    ENCODER_PIN_A | ENCODER_PIN_B
  | MODE_SWITCH | BANDWIDTH_BUTTON | VOL_UP | VOL_DOWN | BAND_BUTTON_UP | BAND_BUTTON_DOWN
  | AGC_SWITCH | STEP_SWITCH | BFO_SWITCH

datatype colour = SSD1306_BLACK | SSD1306_WHITE

text \<open>
  Every call the sketch makes to a collaborator, with its arguments. The calls on the
  tuner object are in two groups: device management, volume, signal quality and patch
  loading (\<open>si4735_call\<close>), and receiver configuration and tuning (\<open>si4735_rx_call\<close>).
  The patch buffer \<open>ssb_patch_content\<close> and its size come from a header that is not part
  of the sketch file; \<open>si4735_downloadPatch\<close> stands for the call with that buffer.
\<close>

datatype si4735_call =
    si4735_getDeviceI2CAddress
  | si4735_setI2CFastMode
  | si4735_setup bandType
  | si4735_setVolume "8 word"
  | si4735_volumeUp
  | si4735_volumeDown
  | si4735_getVolume
  | si4735_getCurrentReceivedSignalQuality
  | si4735_getCurrentRSSI
  | si4735_getCurrentSNR
  | si4735_reset
  | si4735_queryLibraryId
  | si4735_patchPowerUp
  | si4735_downloadPatch
  | si4735_setSSBConfig "8 word" "8 word" "8 word" "8 word" "8 word" "8 word"

datatype si4735_rx_call =
    si4735_setTuneFrequencyAntennaCapacitor "8 word"
  | si4735_setFM "16 word" "16 word" "16 word" "16 word"
  | si4735_setSSB "16 word" "16 word" "16 word" "16 word" "8 word"
  | si4735_setSSBAutomaticVolumeControl "8 word"
  | si4735_setSsbSoftMuteMaxAttenuation "8 word"
  | si4735_setAM "16 word" "16 word" "16 word" "16 word"
  | si4735_setAutomaticGainControl "8 word" "8 word"
  | si4735_setAmSoftMuteMaxAttenuation "8 word"
  | si4735_setSSBBfo int
  | si4735_frequencyUp
  | si4735_frequencyDown
  | si4735_getFrequency
  | si4735_setSSBAudioBandwidth "8 word"
  | si4735_setSBBSidebandCutoffFilter "8 word"
  | si4735_setBandwidth "8 word" "8 word"
  | si4735_seekStationUp
  | si4735_setFmStereoOn
  | si4735_setFmStereoOff
  | si4735_setFrequencyStep "8 word"

datatype oled_call =
    oled_begin
  | oled_clearDisplay
  | oled_setTextColor colour
  | oled_setTextSize nat
  | oled_setCursor int int
  | oled_write char
  | oled_print string
  | oled_display

datatype effect =
    si4735 si4735_call
  | si4735_rx si4735_rx_call
  | oled oled_call
  | delay nat
  | pinMode_INPUT_PULLUP pin
  | attachInterrupt_CHANGE pin

text \<open>
  The global variables (lines 117-190 and 353-355). \<open>currentBFO\<close>, \<open>encoderCount\<close> and
  \<open>bandIdx\<close> are C \<open>int\<close>s whose values stay far from the 32-bit limits; they are \<open>int\<close>
  here. The two time stamps \<open>elapsedRSSI\<close> and \<open>elapsedButton\<close> are only compared with
  \<open>millis()\<close>; the outcome of each comparison is an input of \<open>loop\<close> below, and the time
  stamps are left out. \<open>trace\<close> is the list of collaborator calls made so far, oldest
  first.
\<close>

record state =
  currentMode :: mode
  bfoOn :: bool
  disableAgc :: bool
  ssbLoaded :: bool
  fmStereo :: bool
  displayBuffer :: string
  currentBFO :: int
  encoderCount :: int
  currentFrequency :: "16 word"
  previousFrequency :: "16 word"
  currentStep :: "8 word"
  currentBFOStep :: "8 word"
  bwIdxSSB :: "8 word"
  bwIdxAM :: "8 word"
  band :: "Band list"
  bandIdx :: int
  rssi :: "8 word"
  snr :: "8 word"
  stereo :: "8 word"
  volume :: "8 word"
  oldFreq :: string
  oldMode :: string
  oldUnit :: string
  trace :: "effect list"

text \<open>The values of the globals before \<open>setup\<close> runs (static initialisers; others zero).\<close>

definition init :: state where
  "init =
    \<lparr>currentMode = FM, bfoOn = False, disableAgc = True, ssbLoaded = False, fmStereo = True,
     displayBuffer = [], currentBFO = 0, encoderCount = 0,
     currentFrequency = 0, previousFrequency = 0, currentStep = 1, currentBFOStep = 25,
     bwIdxSSB = 2, bwIdxAM = 1, band = bandTable, bandIdx = 0,
     rssi = 0, snr = 0, stereo = 1, volume = 45,
     oldFreq = [], oldMode = [], oldUnit = [], trace = []\<rparr>"

section \<open>The functions of the sketch\<close>

definition emit :: "effect list \<Rightarrow> state \<Rightarrow> state" where
  "emit es s = s\<lparr>trace := trace s @ es\<rparr>"

text \<open>\<open>band[bandIdx]\<close>. The index is meaningful for \<open>0 \<le> bandIdx \<le> lastBand\<close> only.\<close>

definition theBand :: "state \<Rightarrow> Band" where
  "theBand s = band s ! nat (bandIdx s)"


text \<open>\<open>showStatus\<close>, \<open>showRSSI\<close>, \<open>showVolume\<close>, \<open>showBFO\<close> have empty bodies (lines 411-439).\<close>

definition showStatus :: "state \<Rightarrow> state" where
  "showStatus s = s"

definition showRSSI :: "state \<Rightarrow> state" where
  "showRSSI s = s"

definition showVolume :: "state \<Rightarrow> state" where
  "showVolume s = s"

definition showBFO :: "state \<Rightarrow> state" where
  "showBFO s = s"

text \<open>\<open>loadSSB\<close> (lines 484-508).\<close>

definition loadSSB :: "state \<Rightarrow> state" where
  "loadSSB s =
     (emit [si4735 si4735_reset, si4735 si4735_queryLibraryId, si4735 si4735_patchPowerUp,
            delay 50,
            si4735 si4735_downloadPatch,
            si4735 (si4735_setSSBConfig (bwIdxSSB s) 1 0 0 0 1),
            delay 25] s)
     \<lparr>ssbLoaded := True\<rparr>"

text \<open>\<open>useBand\<close> (lines 515-553).\<close>

definition useBand :: "state \<Rightarrow> state" where
  "useBand s =
    (let b = theBand s;
         s1 =
           (if bandType b = FM_BAND_TYPE then
              (emit [si4735_rx (si4735_setTuneFrequencyAntennaCapacitor 0),
                     si4735_rx (si4735_setFM (minimumFreq b) (maximumFreq b) (currentFreq b)
                                  (band_currentStep b))]
                 (s\<lparr>currentMode := FM\<rparr>))
              \<lparr>bfoOn := False, ssbLoaded := False\<rparr>
            else
              (let s2 = emit [si4735_rx (si4735_setTuneFrequencyAntennaCapacitor
                                (if bandType b = MW_BAND_TYPE \<or> bandType b = LW_BAND_TYPE
                                 then 0 else 1))] s
               in if ssbLoaded s2 then
                    emit [si4735_rx (si4735_setSSB (minimumFreq b) (maximumFreq b) (currentFreq b)
                                       (band_currentStep b) (modeCode (currentMode s2))),
                          si4735_rx (si4735_setSSBAutomaticVolumeControl 1),
                          si4735_rx (si4735_setSsbSoftMuteMaxAttenuation 0)] s2
                  else
                    (emit [si4735_rx (si4735_setAM (minimumFreq b) (maximumFreq b) (currentFreq b)
                                        (band_currentStep b)),
                           si4735_rx (si4735_setAutomaticGainControl 1 0),
                           si4735_rx (si4735_setAmSoftMuteMaxAttenuation 0)]
                       (s2\<lparr>currentMode := AM\<rparr>))
                    \<lparr>bfoOn := False\<rparr>));
         s3 = emit [delay 100] s1
     in showStatus (s3\<lparr>currentFrequency := currentFreq (theBand s3),
                        currentStep := ucast (band_currentStep (theBand s3))\<rparr>))"

text \<open>
  The two assignments \<open>band[bandIdx].currentFreq = currentFrequency;
  band[bandIdx].currentStep = currentStep;\<close> that open \<open>bandUp\<close> and \<open>bandDown\<close> and
  precede \<open>useBand\<close> in the mode switch (lines 447-448, 467-468, 698-699).
\<close>

definition saveCurrent :: "state \<Rightarrow> state" where
  "saveCurrent s =
     s\<lparr>band := (band s)[nat (bandIdx s) :=
          (theBand s)\<lparr>currentFreq := currentFrequency s,
                      band_currentStep := ucast (currentStep s)\<rparr>]\<rparr>"

text \<open>\<open>bandUp\<close> (lines 444-459) and \<open>bandDown\<close> (lines 464-478).\<close>

definition bandUp :: "state \<Rightarrow> state" where
  "bandUp s =
     (let s1 = saveCurrent s;
          s2 = (if bandIdx s1 < lastBand then s1\<lparr>bandIdx := bandIdx s1 + 1\<rparr>
                else s1\<lparr>bandIdx := 0\<rparr>)
      in useBand s2)"

definition bandDown :: "state \<Rightarrow> state" where
  "bandDown s =
     (let s1 = saveCurrent s;
          s2 = (if bandIdx s1 > 0 then s1\<lparr>bandIdx := bandIdx s1 - 1\<rparr>
                else s1\<lparr>bandIdx := lastBand\<rparr>)
      in useBand s2)"

subsection \<open>The differential renderer\<close>

text \<open>
  A C string is the list of its characters before the terminating NUL; reading element 0
  of an empty string reads the NUL itself.
\<close>

definition firstChar :: "string \<Rightarrow> char" where
  "firstChar str = (case str of [] \<Rightarrow> CHR 0x00 | ch # _ \<Rightarrow> ch)"

text \<open>
  The first loop of \<open>printValue\<close> (lines 311-325): it returns the calls made, the column
  reached and what is left of the two strings.
\<close>

fun changedDigits ::
  "int \<Rightarrow> int \<Rightarrow> int \<Rightarrow> string \<Rightarrow> string \<Rightarrow> effect list \<times> int \<times> string \<times> string" where
  "changedDigits c line space (a # pOld) (b # pNew) =
     (let (es, rest) = changedDigits (c + space) line space pOld pNew
      in ((if a \<noteq> b then
             [oled (oled_setTextColor SSD1306_BLACK), oled (oled_setCursor c line),
              oled (oled_write a),
              oled (oled_setTextColor SSD1306_WHITE), oled (oled_setCursor c line),
              oled (oled_write b)]
           else []) @ es, rest))"
| "changedDigits c line space pOld pNew = ([], c, pOld, pNew)"

text \<open>The second loop (lines 329-335) and the third loop (lines 339-345).\<close>

fun eraseRest :: "int \<Rightarrow> int \<Rightarrow> int \<Rightarrow> string \<Rightarrow> effect list \<times> int" where
  "eraseRest c line space [] = ([], c)"
| "eraseRest c line space (a # pOld) =
     (let (es, c') = eraseRest (c + space) line space pOld
      in ([oled (oled_setCursor c line), oled (oled_write a)] @ es, c'))"

fun printRest :: "int \<Rightarrow> int \<Rightarrow> int \<Rightarrow> string \<Rightarrow> effect list \<times> int" where
  "printRest c line space [] = ([], c)"
| "printRest c line space (b # pNew) =
     (let (es, c') = printRest (c + space) line space pNew
      in ([oled (oled_setCursor c line), oled (oled_write b)] @ es, c'))"

text \<open>
  \<open>printValue\<close> (lines 297-349). It returns the calls made on the display and the new
  content of the buffer \<open>oldValue\<close> (the \<open>strcpy\<close> of line 348).
\<close>

definition printValue :: "int \<Rightarrow> int \<Rightarrow> string \<Rightarrow> string \<Rightarrow> int \<Rightarrow> effect list \<times> string" where
  "printValue col line oldValue newValue space =
     (let e0 = [oled (oled_setCursor 38 0), oled (oled_write (firstChar newValue)),
                oled (oled_write (firstChar oldValue))];
          (e1, c1, pOld, pNew) = changedDigits col line space oldValue newValue;
          (e2, c2) = eraseRest c1 line space pOld;
          (e3, c3) = printRest c2 line space pNew
      in (e0 @ e1 @ [oled (oled_setTextColor SSD1306_BLACK)] @ e2 @
          [oled (oled_setTextColor SSD1306_WHITE)] @ e3,
          newValue))"

subsection \<open>The frequency field\<close>

text \<open>
  \<open>sprintf(tmp, "%5u", v)\<close>: the decimal digits of \<open>v\<close>, padded on the left with spaces
  to five characters.
\<close>

definition digitChar :: "nat \<Rightarrow> char" where
  "digitChar d = ''0123456789'' ! (d mod 10)"

fun decimal :: "nat \<Rightarrow> string" where
  "decimal n = (if n < 10 then [digitChar n] else decimal (n div 10) @ [digitChar (n mod 10)])"

declare decimal.simps [simp del]

definition sprintf_5u :: "16 word \<Rightarrow> string" where
  "sprintf_5u v = (let d = decimal (unat v) in replicate (5 - length d) CHR '' '' @ d)"

text \<open>
  \<open>showFrequency\<close> (lines 357-406). Each call of \<open>printValue\<close> yields the display calls
  (first component) and the new content of the buffer it was given (second component).
\<close>

definition showFrequency :: "state \<Rightarrow> state" where
  "showFrequency s =
     (let tmp = sprintf_5u (currentFrequency s);
          (freq, unit) =
            (if bandType (theBand s) = FM_BAND_TYPE then
               ([tmp ! 0, tmp ! 1, tmp ! 2, CHR ''.'', tmp ! 3, tmp ! 4], ''MHz'')
             else
               ([tmp ! 0, tmp ! 1, tmp ! 2, tmp ! 3, tmp ! 4], ''KHz''));
          s1 = s\<lparr>displayBuffer := (if \<not> bfoOn s then freq else ''>'' @ freq @ ''<'')\<rparr>;
          r1 = printValue 38 0 (oldFreq s1) (displayBuffer s1) 7;
          s2 = (emit (fst r1) s1)\<lparr>oldFreq := snd r1\<rparr>;
          bandMode = (if currentFrequency s2 < 520 then ''LW  ''
                      else bandModeDesc (currentMode s2));
          r2 = printValue 0 0 (oldMode s2) bandMode 7;
          s3 = (emit (fst r2) s2)\<lparr>oldMode := snd r2\<rparr>;
          r3 = printValue 0 0 (oldUnit s3) unit 7;
          s4 = (emit (fst r3) s3)\<lparr>oldUnit := snd r3\<rparr>
      in emit [oled oled_display] s4)"

subsection \<open>The interrupt handler and the main loop\<close>

text \<open>
  \<open>rotaryEncoder\<close> (lines 263-277). \<open>encoderStatus\<close> is the value returned by
  \<open>encoder.process()\<close>; the constant \<open>DIR_CW\<close> comes from \<open>Rotary.h\<close>, which is not part of
  the sketch file, so it is a parameter.
\<close>

definition rotaryEncoder :: "8 word \<Rightarrow> 8 word \<Rightarrow> state \<Rightarrow> state" where
  "rotaryEncoder DIR_CW encoderStatus s =
     (if encoderStatus \<noteq> 0 then
        (if encoderStatus = DIR_CW then s\<lparr>encoderCount := 1\<rparr>
         else s\<lparr>encoderCount := - 1\<rparr>)
      else s)"

text \<open>
  What one pass of \<open>loop\<close> reads from the hardware: the outcome of the two \<open>millis\<close>
  comparisons (lines 581 and 714), which pins read \<open>LOW\<close>, and the values returned by the
  tuner (\<open>getFrequency\<close> at line 575 and at line 636, \<open>getVolume\<close>, \<open>getCurrentRSSI\<close>,
  \<open>getCurrentSNR\<close>).
\<close>

record inputs =
  buttonGate :: bool
  low :: "pin \<Rightarrow> bool"
  freqAfterTune :: "16 word"
  freqAfterSeek :: "16 word"
  volumeRead :: "8 word"
  rssiGate :: bool
  rssiRead :: "8 word"
  snrRead :: "8 word"

text \<open>The encoder section of \<open>loop\<close> (lines 559-578).\<close>

definition encoderPart :: "inputs \<Rightarrow> state \<Rightarrow> state" where
  "encoderPart i s =
     (if encoderCount s \<noteq> 0 then
        (if bfoOn s then
           (let s1 = s\<lparr>currentBFO :=
                       (if encoderCount s = 1 then currentBFO s + uint (currentBFOStep s)
                        else currentBFO s - uint (currentBFOStep s))\<rparr>
            in showBFO (emit [si4735_rx (si4735_setSSBBfo (currentBFO s1))] s1))
         else
           (emit [si4735_rx (if encoderCount s = 1 then si4735_frequencyUp
                             else si4735_frequencyDown),
                  si4735_rx si4735_getFrequency] s)
           \<lparr>currentFrequency := freqAfterTune i\<rparr>)
        \<lparr>encoderCount := 0\<rparr>
      else s)"

text \<open>The branch of the bandwidth button (lines 585-606).\<close>

definition bandwidthButton :: "state \<Rightarrow> state" where
  "bandwidthButton s =
     (let s1 =
        (if currentMode s = LSB \<or> currentMode s = USB then
           (let s2 = s\<lparr>bwIdxSSB := bwIdxSSB s + 1\<rparr>;
                s3 = (if bwIdxSSB s2 > 5 then s2\<lparr>bwIdxSSB := 0\<rparr> else s2);
                s4 = emit [si4735_rx (si4735_setSSBAudioBandwidth (bwIdxSSB s3))] s3
            in if bwIdxSSB s4 = 0 \<or> bwIdxSSB s4 = 4 \<or> bwIdxSSB s4 = 5 then
                 emit [si4735_rx (si4735_setSBBSidebandCutoffFilter 0)] s4
               else
                 emit [si4735_rx (si4735_setSBBSidebandCutoffFilter 1)] s4)
         else if currentMode s = AM then
           (let s2 = s\<lparr>bwIdxAM := bwIdxAM s + 1\<rparr>;
                s3 = (if bwIdxAM s2 > 6 then s2\<lparr>bwIdxAM := 0\<rparr> else s2)
            in emit [si4735_rx (si4735_setBandwidth (bwIdxAM s3) 1)] s3)
         else s)
      in emit [delay 100] (showStatus s1))"

text \<open>The branches of the two volume buttons (lines 613-625).\<close>

definition volUp :: "inputs \<Rightarrow> state \<Rightarrow> state" where
  "volUp i s =
     emit [delay 100]
       (showVolume ((emit [si4735 si4735_volumeUp, si4735 si4735_getVolume] s)
                    \<lparr>volume := volumeRead i\<rparr>))"

definition volDown :: "inputs \<Rightarrow> state \<Rightarrow> state" where
  "volDown i s =
     emit [delay 100]
       (showVolume ((emit [si4735 si4735_volumeDown, si4735 si4735_getVolume] s)
                    \<lparr>volume := volumeRead i\<rparr>))"

text \<open>The branch of the BFO switch (lines 627-638).\<close>

definition bfoSwitch :: "inputs \<Rightarrow> state \<Rightarrow> state" where
  "bfoSwitch i s =
     (let s1 =
        (if currentMode s = LSB \<or> currentMode s = USB then
           (let s2 = s\<lparr>bfoOn := \<not> bfoOn s\<rparr>;
                s3 = (if bfoOn s2 then showBFO s2 else s2)
            in showStatus s3)
         else if currentMode s = FM then
           (emit [si4735_rx si4735_seekStationUp, delay 30, si4735_rx si4735_getFrequency] s)
           \<lparr>currentFrequency := freqAfterSeek i\<rparr>
         else s)
      in emit [delay 100] s1)"

text \<open>The branch of the AGC switch (lines 641-645); the \<open>bool\<close> is passed as 0 or 1.\<close>

definition agcSwitch :: "state \<Rightarrow> state" where
  "agcSwitch s =
     (let s1 = s\<lparr>disableAgc := \<not> disableAgc s\<rparr>
      in showStatus
           (emit [si4735_rx (si4735_setAutomaticGainControl (of_bool (disableAgc s1)) 1)] s1))"

text \<open>The branch of the step switch (lines 648-676).\<close>

definition stepSwitch :: "state \<Rightarrow> state" where
  "stepSwitch s =
     (if currentMode s = FM then
        (let s1 = s\<lparr>fmStereo := \<not> fmStereo s\<rparr>
         in if fmStereo s1 then emit [si4735_rx si4735_setFmStereoOn] s1
            else emit [si4735_rx si4735_setFmStereoOff] s1)
      else
        (let s1 =
           (if bfoOn s \<and> (currentMode s = LSB \<or> currentMode s = USB) then
              showBFO (s\<lparr>currentBFOStep := (if currentBFOStep s = 25 then 10 else 25)\<rparr>)
            else
              (let s2 = (if currentStep s = 1 then s\<lparr>currentStep := 5\<rparr>
                         else if currentStep s = 5 then s\<lparr>currentStep := 10\<rparr>
                         else s\<lparr>currentStep := 1\<rparr>);
                   s3 = emit [si4735_rx (si4735_setFrequencyStep (currentStep s2))] s2;
                   s4 = s3\<lparr>band := (band s3)[nat (bandIdx s3) :=
                             (theBand s3)\<lparr>band_currentStep := ucast (currentStep s3)\<rparr>]\<rparr>
               in showStatus s4))
         in emit [delay 100] s1))"

text \<open>The branch of the mode switch (lines 679-701).\<close>

definition modeSwitch :: "state \<Rightarrow> state" where
  "modeSwitch s =
     (if currentMode s \<noteq> FM then
        (let s1 =
           (if currentMode s = AM then (loadSSB s)\<lparr>currentMode := LSB\<rparr>
            else if currentMode s = LSB then s\<lparr>currentMode := USB\<rparr>
            else if currentMode s = USB then
              s\<lparr>currentMode := AM, ssbLoaded := False, bfoOn := False\<rparr>
            else s)
         in useBand (saveCurrent s1))
      else s)"

text \<open>
  The button section of \<open>loop\<close> (lines 581-704): at most one branch runs, the first in
  source order whose pin reads \<open>LOW\<close>.
\<close>

definition buttonPart :: "inputs \<Rightarrow> state \<Rightarrow> state" where
  "buttonPart i s =
     (if buttonGate i then
        (if low i BANDWIDTH_BUTTON then bandwidthButton s
         else if low i BAND_BUTTON_UP then bandUp s
         else if low i BAND_BUTTON_DOWN then bandDown s
         else if low i VOL_UP then volUp i s
         else if low i VOL_DOWN then volDown i s
         else if low i BFO_SWITCH then bfoSwitch i s
         else if low i AGC_SWITCH then agcSwitch s
         else if low i STEP_SWITCH then stepSwitch s
         else if low i MODE_SWITCH then modeSwitch s
         else s)
      else s)"

text \<open>The frequency display section (lines 707-711) and the RSSI section (lines 714-725).\<close>

definition frequencyPart :: "state \<Rightarrow> state" where
  "frequencyPart s =
     (if currentFrequency s \<noteq> previousFrequency s then
        showFrequency (s\<lparr>previousFrequency := currentFrequency s\<rparr>)
      else s)"

definition rssiPart :: "inputs \<Rightarrow> state \<Rightarrow> state" where
  "rssiPart i s =
     (if rssiGate i then
        (let s1 = emit [si4735 si4735_getCurrentReceivedSignalQuality,
                        si4735 si4735_getCurrentRSSI] s
         in if rssi s1 \<noteq> rssiRead i then
              showRSSI ((emit [si4735 si4735_getCurrentSNR] (s1\<lparr>rssi := rssiRead i\<rparr>))
                        \<lparr>snr := snrRead i\<rparr>)
            else s1)
      else s)"

text \<open>\<open>loop\<close> (lines 556-727).\<close>

definition loop :: "inputs \<Rightarrow> state \<Rightarrow> state" where
  "loop i s = emit [delay 10] (rssiPart i (frequencyPart (buttonPart i (encoderPart i s))))"

subsection \<open>Start-up\<close>

text \<open>
  \<open>setup\<close> (lines 199-260), named \<open>setupRadio\<close> here. Its argument is the value that
  \<open>si4735.getFrequency()\<close> returns at line 255.
\<close>

definition setupRadio :: "16 word \<Rightarrow> state \<Rightarrow> state" where
  "setupRadio freqRead s =
     (let s1 = emit
           ([pinMode_INPUT_PULLUP ENCODER_PIN_A, pinMode_INPUT_PULLUP ENCODER_PIN_B,
             pinMode_INPUT_PULLUP BANDWIDTH_BUTTON, pinMode_INPUT_PULLUP BAND_BUTTON_UP,
             pinMode_INPUT_PULLUP BAND_BUTTON_DOWN, pinMode_INPUT_PULLUP VOL_UP,
             pinMode_INPUT_PULLUP VOL_DOWN, pinMode_INPUT_PULLUP BFO_SWITCH,
             pinMode_INPUT_PULLUP AGC_SWITCH, pinMode_INPUT_PULLUP STEP_SWITCH,
             pinMode_INPUT_PULLUP MODE_SWITCH,
             oled oled_begin, oled oled_clearDisplay, oled (oled_setTextColor SSD1306_WHITE),
             oled (oled_setTextSize 1),
             oled (oled_setCursor 40 0), oled (oled_print ''SI4735''),
             oled (oled_setCursor 20 10), oled (oled_print ''Arduino Library''),
             oled oled_display, delay 500,
             oled (oled_setCursor 15 20), oled (oled_print ''All in One Radio''),
             oled oled_display, delay 500,
             oled (oled_setCursor 30 35), oled (oled_print ''SMT32 - OLED''),
             oled (oled_setCursor 10 50), oled (oled_print ''V1.1.6 - By PU2CLR''),
             oled oled_display, delay 2000,
             attachInterrupt_CHANGE ENCODER_PIN_A, attachInterrupt_CHANGE ENCODER_PIN_B,
             si4735 si4735_getDeviceI2CAddress, si4735 si4735_setI2CFastMode,
             si4735 (si4735_setup FM_BAND_TYPE), delay 300]) s;
          s2 = useBand s1;
          s3 = (emit [si4735_rx si4735_getFrequency] s2)
                 \<lparr>currentFrequency := freqRead, previousFrequency := freqRead\<rparr>;
          s4 = emit [si4735 (si4735_setVolume (volume s3)), oled oled_clearDisplay] s3
      in showStatus s4)"

text \<open>
  The states the sketch can be in between two passes of \<open>loop\<close>: \<open>setup\<close> runs once on the
  initial globals, then passes of \<open>loop\<close> and encoder interrupts follow in any order and
  with any inputs.
\<close>

inductive reachable :: "state \<Rightarrow> bool" where
  boot: "reachable (setupRadio freqRead init)"
| pass: "reachable s \<Longrightarrow> reachable (loop i s)"
| interrupt: "reachable s \<Longrightarrow> reachable (rotaryEncoder DIR_CW encoderStatus s)"

section \<open>Notions used to state the properties\<close>

text \<open>The calls that running \<open>f\<close> from state \<open>s\<close> adds to the trace.\<close>

definition callsDuring :: "(state \<Rightarrow> state) \<Rightarrow> state \<Rightarrow> effect list" where
  "callsDuring f s = drop (length (trace s)) (trace (f s))"

text \<open>
  The number of patch downloads recorded in a trace. \<open>loadSSB\<close> is the only function that
  calls \<open>downloadPatch\<close>, once per run, so this is the number of runs of the patch-load
  sequence.
\<close>

definition patchLoads :: "effect list \<Rightarrow> nat" where
  "patchLoads es = length (filter (\<lambda>e. e = si4735 si4735_downloadPatch) es)"

text \<open>
  The pin whose branch the button section runs: the first one in source order that reads
  \<open>LOW\<close>, provided the time gate is open.
\<close>

definition buttonScanOrder :: "pin list" where
  "buttonScanOrder =
     [BANDWIDTH_BUTTON, BAND_BUTTON_UP, BAND_BUTTON_DOWN, VOL_UP, VOL_DOWN, BFO_SWITCH,
      AGC_SWITCH, STEP_SWITCH, MODE_SWITCH]"

definition scan :: "inputs \<Rightarrow> pin option" where
  "scan i = (if buttonGate i then find (low i) buttonScanOrder else None)"

text \<open>A pass in which exactly the pin \<open>p\<close> reads \<open>LOW\<close> and the RSSI gate is closed.\<close>

definition press :: "pin \<Rightarrow> inputs" where
  "press p =
     \<lparr>buttonGate = True, low = (\<lambda>q. q = p), freqAfterTune = 0, freqAfterSeek = 0,
      volumeRead = 0, rssiGate = False, rssiRead = 0, snrRead = 0\<rparr>"

text \<open>
  The command trace of the patch loader as the specification words it: reset, query of the
  library id, patch power-up, a delay, download of the patch, a delay, the SSB
  configuration with the given bandwidth index, a delay.
\<close>

definition isDelay :: "effect \<Rightarrow> bool" where
  "isDelay e = (case e of delay _ \<Rightarrow> True | _ \<Rightarrow> False)"

definition isSSBConfig :: "8 word \<Rightarrow> effect \<Rightarrow> bool" where
  "isSSBConfig bw e =
     (case e of si4735 (si4735_setSSBConfig b _ _ _ _ _) \<Rightarrow> b = bw | _ \<Rightarrow> False)"

definition spec_loadSSB_trace :: "8 word \<Rightarrow> effect list \<Rightarrow> bool" where
  "spec_loadSSB_trace bw es =
     (length es = 8 \<and>
      es ! 0 = si4735 si4735_reset \<and>
      es ! 1 = si4735 si4735_queryLibraryId \<and>
      es ! 2 = si4735 si4735_patchPowerUp \<and>
      isDelay (es ! 3) \<and>
      es ! 4 = si4735 si4735_downloadPatch \<and>
      isDelay (es ! 5) \<and>
      isSSBConfig bw (es ! 6) \<and>
      isDelay (es ! 7))"

text \<open>What \<open>bandUp\<close> and \<open>bandDown\<close> do to the band index.\<close>

definition upIdx :: "int \<Rightarrow> int" where
  "upIdx k = (if k < lastBand then k + 1 else 0)"

definition downIdx :: "int \<Rightarrow> int" where
  "downIdx k = (if k > 0 then k - 1 else lastBand)"

text \<open>The branch of the button section that belongs to a pin.\<close>

fun branch :: "pin \<Rightarrow> inputs \<Rightarrow> state \<Rightarrow> state" where
  "branch BANDWIDTH_BUTTON i s = bandwidthButton s"
| "branch BAND_BUTTON_UP i s = bandUp s"
| "branch BAND_BUTTON_DOWN i s = bandDown s"
| "branch VOL_UP i s = volUp i s"
| "branch VOL_DOWN i s = volDown i s"
| "branch BFO_SWITCH i s = bfoSwitch i s"
| "branch AGC_SWITCH i s = agcSwitch s"
| "branch STEP_SWITCH i s = stepSwitch s"
| "branch MODE_SWITCH i s = modeSwitch s"
| "branch ENCODER_PIN_A i s = s"
| "branch ENCODER_PIN_B i s = s"

text \<open>
  The renderer as the specification words it: at every position below the shorter length
  where the two texts differ, erase the old glyph and draw the new one at that position's
  column; then erase the old text's trailing glyphs; then draw the new text's trailing
  glyphs. (At most one of the two trailing ranges is non-empty.)
\<close>

definition redraw :: "int \<Rightarrow> int \<Rightarrow> int \<Rightarrow> string \<Rightarrow> string \<Rightarrow> nat \<Rightarrow> effect list" where
  "redraw col line space oldText newText k =
     (if oldText ! k \<noteq> newText ! k then
        [oled (oled_setTextColor SSD1306_BLACK), oled (oled_setCursor (col + int k * space) line),
         oled (oled_write (oldText ! k)),
         oled (oled_setTextColor SSD1306_WHITE), oled (oled_setCursor (col + int k * space) line),
         oled (oled_write (newText ! k))]
      else [])"

definition glyphAt :: "int \<Rightarrow> int \<Rightarrow> int \<Rightarrow> string \<Rightarrow> nat \<Rightarrow> effect list" where
  "glyphAt col line space txt k =
     [oled (oled_setCursor (col + int k * space) line), oled (oled_write (txt ! k))]"

definition spec_printValue :: "int \<Rightarrow> int \<Rightarrow> string \<Rightarrow> string \<Rightarrow> int \<Rightarrow> effect list" where
  "spec_printValue col line oldText newText space =
     concat (map (redraw col line space oldText newText)
               [0 ..< min (length oldText) (length newText)]) @
     [oled (oled_setTextColor SSD1306_BLACK)] @
     concat (map (glyphAt col line space oldText) [length newText ..< length oldText]) @
     [oled (oled_setTextColor SSD1306_WHITE)] @
     concat (map (glyphAt col line space newText) [length oldText ..< length newText])"

text \<open>
  Four reachable states used as examples: after set-up and one pass with the band-up
  button pressed (band 1, LW, mode AM); then after a pass with the mode switch pressed
  (LSB), after one more (USB); and the LSB state after a pass with the BFO switch pressed.
\<close>

definition stateLW :: state where
  "stateLW = loop (press BAND_BUTTON_UP) (setupRadio 10570 init)"

definition stateLSB :: state where
  "stateLSB = loop (press MODE_SWITCH) stateLW"

definition stateUSB :: state where
  "stateUSB = loop (press MODE_SWITCH) stateLSB"

definition stateBFO :: state where
  "stateBFO = loop (press BFO_SWITCH) stateLSB"








section \<open>What each function leaves unchanged\<close>

lemma patchLoads_append: "patchLoads (xs @ ys) = patchLoads xs + patchLoads ys"
  by (simp add: patchLoads_def)

lemma patchLoads_oled: "set es \<subseteq> range oled \<Longrightarrow> patchLoads es = 0"
  by (induction es) (auto simp: patchLoads_def)

lemma useBand_mode:
  "currentMode (useBand s) =
     (if bandType (theBand s) = FM_BAND_TYPE then FM else if ssbLoaded s then currentMode s else AM)"
  by (simp add: useBand_def Let_def emit_def showStatus_def)

lemma useBand_ssbLoaded:
  "ssbLoaded (useBand s) = (bandType (theBand s) \<noteq> FM_BAND_TYPE \<and> ssbLoaded s)"
  by (simp add: useBand_def Let_def emit_def showStatus_def)

lemma useBand_bfoOn:
  "bfoOn (useBand s) = (bandType (theBand s) \<noteq> FM_BAND_TYPE \<and> ssbLoaded s \<and> bfoOn s)"
  by (simp add: useBand_def Let_def emit_def showStatus_def)

lemma useBand_band: "band (useBand s) = band s" "bandIdx (useBand s) = bandIdx s"
  by (simp_all add: useBand_def Let_def emit_def showStatus_def)

lemma useBand_patchLoads: "patchLoads (trace (useBand s)) = patchLoads (trace s)"
  by (simp add: useBand_def Let_def emit_def showStatus_def patchLoads_def)

lemma changedDigits_oled: "set (fst (changedDigits c l sp a b)) \<subseteq> range oled"
  by (induction c l sp a b rule: changedDigits.induct) (auto split: prod.splits)

lemma eraseRest_oled: "set (fst (eraseRest c l sp a)) \<subseteq> range oled"
  by (induction c l sp a rule: eraseRest.induct) (auto split: prod.splits)

lemma printRest_oled: "set (fst (printRest c l sp a)) \<subseteq> range oled"
  by (induction c l sp a rule: printRest.induct) (auto split: prod.splits)

lemma printValue_oled: "set (fst (printValue c l a b sp)) \<subseteq> range oled"
proof -
  obtain e1 c1 pOld pNew where A: "changedDigits c l sp a b = (e1, c1, pOld, pNew)"
    by (metis prod_cases4)
  obtain e2 c2 where B: "eraseRest c1 l sp pOld = (e2, c2)" by (metis surj_pair)
  obtain e3 c3 where C: "printRest c2 l sp pNew = (e3, c3)" by (metis surj_pair)
  have "set e1 \<subseteq> range oled" using changedDigits_oled[of c l sp a b] A by simp
  moreover have "set e2 \<subseteq> range oled" using eraseRest_oled[of c1 l sp pOld] B by simp
  moreover have "set e3 \<subseteq> range oled" using printRest_oled[of c2 l sp pNew] C by simp
  ultimately show ?thesis by (simp add: printValue_def A B C)
qed

lemma printValue_snd: "snd (printValue c l a b sp) = b"
  by (simp add: printValue_def Let_def split: prod.splits)

lemma printValue_patchLoads: "patchLoads (fst (printValue c l a b sp)) = 0"
  by (rule patchLoads_oled) (rule printValue_oled)

lemma showFrequency_patchLoads: "patchLoads (trace (showFrequency s)) = patchLoads (trace s)"
  by (simp add: showFrequency_def Let_def emit_def patchLoads_append printValue_patchLoads split: prod.splits)
    (simp add: patchLoads_def)

lemma showFrequency_frame:
  "currentMode (showFrequency s) = currentMode s"
  "ssbLoaded (showFrequency s) = ssbLoaded s"
  "bfoOn (showFrequency s) = bfoOn s"
  "band (showFrequency s) = band s"
  "bandIdx (showFrequency s) = bandIdx s"
  by (simp_all add: showFrequency_def Let_def emit_def split: prod.splits)

lemma scan_MODE: "scan i = Some MODE_SWITCH \<Longrightarrow> buttonPart i s = modeSwitch s"
  by (simp add: scan_def buttonScanOrder_def buttonPart_def split: if_splits)

lemma scan_BW: "scan i = Some BANDWIDTH_BUTTON \<Longrightarrow> buttonPart i s = bandwidthButton s"
  by (simp add: scan_def buttonScanOrder_def buttonPart_def split: if_splits)

lemma scan_STEP: "scan i = Some STEP_SWITCH \<Longrightarrow> buttonPart i s = stepSwitch s"
  by (simp add: scan_def buttonScanOrder_def buttonPart_def split: if_splits)

lemma scan_BFO: "scan i = Some BFO_SWITCH \<Longrightarrow> buttonPart i s = bfoSwitch i s"
  by (simp add: scan_def buttonScanOrder_def buttonPart_def split: if_splits)

lemma encoderPart_frame:
  "currentMode (encoderPart i s) = currentMode s"
  "ssbLoaded (encoderPart i s) = ssbLoaded s"
  "bfoOn (encoderPart i s) = bfoOn s"
  "band (encoderPart i s) = band s"
  "bandIdx (encoderPart i s) = bandIdx s"
  "bwIdxSSB (encoderPart i s) = bwIdxSSB s"
  "bwIdxAM (encoderPart i s) = bwIdxAM s"
  "currentStep (encoderPart i s) = currentStep s"
  "patchLoads (trace (encoderPart i s)) = patchLoads (trace s)"
  by (simp_all add: encoderPart_def Let_def emit_def showBFO_def patchLoads_def)

lemma frequencyPart_frame:
  "currentMode (frequencyPart s) = currentMode s"
  "ssbLoaded (frequencyPart s) = ssbLoaded s"
  "bfoOn (frequencyPart s) = bfoOn s"
  "band (frequencyPart s) = band s"
  "bandIdx (frequencyPart s) = bandIdx s"
  "patchLoads (trace (frequencyPart s)) = patchLoads (trace s)"
  by (simp_all add: frequencyPart_def showFrequency_frame showFrequency_patchLoads)

lemma rssiPart_frame:
  "currentMode (rssiPart i s) = currentMode s"
  "ssbLoaded (rssiPart i s) = ssbLoaded s"
  "bfoOn (rssiPart i s) = bfoOn s"
  "band (rssiPart i s) = band s"
  "bandIdx (rssiPart i s) = bandIdx s"
  "patchLoads (trace (rssiPart i s)) = patchLoads (trace s)"
  by (simp_all add: rssiPart_def Let_def emit_def showRSSI_def patchLoads_def)

lemma loop_frame:
  "currentMode (loop i s) = currentMode (buttonPart i (encoderPart i s))"
  "ssbLoaded (loop i s) = ssbLoaded (buttonPart i (encoderPart i s))"
  "bfoOn (loop i s) = bfoOn (buttonPart i (encoderPart i s))"
  "band (loop i s) = band (buttonPart i (encoderPart i s))"
  "bandIdx (loop i s) = bandIdx (buttonPart i (encoderPart i s))"
  "patchLoads (trace (loop i s)) = patchLoads (trace (buttonPart i (encoderPart i s)))"
  by (simp_all add: loop_def emit_def rssiPart_frame frequencyPart_frame patchLoads_append)
    (simp add: patchLoads_def)

lemma saveCurrent_frame:
  "currentMode (saveCurrent s) = currentMode s"
  "ssbLoaded (saveCurrent s) = ssbLoaded s"
  "bfoOn (saveCurrent s) = bfoOn s"
  "bandIdx (saveCurrent s) = bandIdx s"
  "trace (saveCurrent s) = trace s"
  "length (band (saveCurrent s)) = length (band s)"
  by (simp_all add: saveCurrent_def)

lemma saveCurrent_bandType: "bandType (theBand (saveCurrent s)) = bandType (theBand s)"
  by (cases "nat (bandIdx s) < length (band s)")
    (simp_all add: saveCurrent_def theBand_def list_update_beyond)

lemma saveCurrent_band:
  "band (saveCurrent s) = (band s)[nat (bandIdx s) :=
      (band s ! nat (bandIdx s))\<lparr>currentFreq := currentFrequency s,
                                band_currentStep := ucast (currentStep s)\<rparr>]"
  by (simp add: saveCurrent_def theBand_def)

lemma loadSSB_frame:
  "currentMode (loadSSB s) = currentMode s"
  "ssbLoaded (loadSSB s)"
  "bfoOn (loadSSB s) = bfoOn s"
  "band (loadSSB s) = band s"
  "bandIdx (loadSSB s) = bandIdx s"
  "patchLoads (trace (loadSSB s)) = Suc (patchLoads (trace s))"
  by (simp_all add: loadSSB_def emit_def patchLoads_def)

lemma theBand_encoderPart: "theBand (encoderPart i s) = theBand s"
  by (simp add: theBand_def encoderPart_frame)

lemma lastBand_19: "lastBand = 19"
  by (simp add: lastBand_def bandTable_def)

lemma bandwidthButton_frame:
  "currentMode (bandwidthButton s) = currentMode s"
  "ssbLoaded (bandwidthButton s) = ssbLoaded s"
  "bfoOn (bandwidthButton s) = bfoOn s"
  "band (bandwidthButton s) = band s"
  "bandIdx (bandwidthButton s) = bandIdx s"
  "patchLoads (trace (bandwidthButton s)) = patchLoads (trace s)"
  by (simp_all add: bandwidthButton_def Let_def emit_def showStatus_def patchLoads_def)

lemma volUp_frame:
  "currentMode (volUp i s) = currentMode s"
  "ssbLoaded (volUp i s) = ssbLoaded s"
  "bfoOn (volUp i s) = bfoOn s"
  "band (volUp i s) = band s"
  "bandIdx (volUp i s) = bandIdx s"
  "patchLoads (trace (volUp i s)) = patchLoads (trace s)"
  by (simp_all add: volUp_def Let_def emit_def showVolume_def patchLoads_def)

lemma volDown_frame:
  "currentMode (volDown i s) = currentMode s"
  "ssbLoaded (volDown i s) = ssbLoaded s"
  "bfoOn (volDown i s) = bfoOn s"
  "band (volDown i s) = band s"
  "bandIdx (volDown i s) = bandIdx s"
  "patchLoads (trace (volDown i s)) = patchLoads (trace s)"
  by (simp_all add: volDown_def Let_def emit_def showVolume_def patchLoads_def)

lemma agcSwitch_frame:
  "currentMode (agcSwitch s) = currentMode s"
  "ssbLoaded (agcSwitch s) = ssbLoaded s"
  "bfoOn (agcSwitch s) = bfoOn s"
  "band (agcSwitch s) = band s"
  "bandIdx (agcSwitch s) = bandIdx s"
  "patchLoads (trace (agcSwitch s)) = patchLoads (trace s)"
  by (simp_all add: agcSwitch_def Let_def emit_def showStatus_def patchLoads_def)

lemma stepSwitch_frame:
  "currentMode (stepSwitch s) = currentMode s"
  "ssbLoaded (stepSwitch s) = ssbLoaded s"
  "bfoOn (stepSwitch s) = bfoOn s"
  "bandIdx (stepSwitch s) = bandIdx s"
  "length (band (stepSwitch s)) = length (band s)"
  "patchLoads (trace (stepSwitch s)) = patchLoads (trace s)"
  by (simp_all add: stepSwitch_def Let_def emit_def showStatus_def showBFO_def patchLoads_def)

lemma bfoSwitch_frame:
  "currentMode (bfoSwitch i s) = currentMode s"
  "ssbLoaded (bfoSwitch i s) = ssbLoaded s"
  "bfoOn (bfoSwitch i s) =
     (if currentMode s = LSB \<or> currentMode s = USB then \<not> bfoOn s else bfoOn s)"
  "band (bfoSwitch i s) = band s"
  "bandIdx (bfoSwitch i s) = bandIdx s"
  "patchLoads (trace (bfoSwitch i s)) = patchLoads (trace s)"
  by (simp_all add: bfoSwitch_def Let_def emit_def showStatus_def showBFO_def patchLoads_def)

lemma rotaryEncoder_frame:
  "currentMode (rotaryEncoder d e s) = currentMode s"
  "ssbLoaded (rotaryEncoder d e s) = ssbLoaded s"
  "bfoOn (rotaryEncoder d e s) = bfoOn s"
  "band (rotaryEncoder d e s) = band s"
  "bandIdx (rotaryEncoder d e s) = bandIdx s"
  "trace (rotaryEncoder d e s) = trace s"
  by (simp_all add: rotaryEncoder_def)

lemma setupRadio_init:
  "currentMode (setupRadio f init) = FM"
  "\<not> ssbLoaded (setupRadio f init)"
  "\<not> bfoOn (setupRadio f init)"
  "bandIdx (setupRadio f init) = 0"
  "band (setupRadio f init) = bandTable"
  by (simp_all add: setupRadio_def Let_def emit_def showStatus_def useBand_def init_def
      theBand_def bandTable_def mkBand_def)

lemma useBand_currentStep: "currentStep (useBand s) = ucast (band_currentStep (theBand s))"
  by (simp add: useBand_def Let_def emit_def showStatus_def theBand_def)

section \<open>The mode switch\<close>

lemma modeSwitch_AM:
  assumes "currentMode s = AM" "bandType (theBand s) \<noteq> FM_BAND_TYPE"
  shows "currentMode (modeSwitch s) = LSB" "ssbLoaded (modeSwitch s)"
    "patchLoads (trace (modeSwitch s)) = Suc (patchLoads (trace s))"
    "bfoOn (modeSwitch s) = bfoOn s"
proof -
  let ?t = "(loadSSB s)\<lparr>currentMode := LSB\<rparr>"
  have m: "modeSwitch s = useBand (saveCurrent ?t)"
    using assms by (simp add: modeSwitch_def)
  have b: "bandType (theBand (saveCurrent ?t)) \<noteq> FM_BAND_TYPE"
    using assms(2) by (subst saveCurrent_bandType) (simp add: theBand_def loadSSB_frame)
  show "currentMode (modeSwitch s) = LSB"
    by (simp add: m useBand_mode b saveCurrent_frame loadSSB_frame)
  show "ssbLoaded (modeSwitch s)"
    by (simp add: m useBand_ssbLoaded b saveCurrent_frame loadSSB_frame)
  show "patchLoads (trace (modeSwitch s)) = Suc (patchLoads (trace s))"
    by (simp add: m useBand_patchLoads saveCurrent_frame loadSSB_frame)
  show "bfoOn (modeSwitch s) = bfoOn s"
    by (simp add: m useBand_bfoOn b saveCurrent_frame loadSSB_frame)
qed

lemma modeSwitch_LSB:
  assumes "currentMode s = LSB" "bandType (theBand s) \<noteq> FM_BAND_TYPE" "ssbLoaded s"
  shows "currentMode (modeSwitch s) = USB" "ssbLoaded (modeSwitch s)"
    "patchLoads (trace (modeSwitch s)) = patchLoads (trace s)"
proof -
  let ?t = "s\<lparr>currentMode := USB\<rparr>"
  have m: "modeSwitch s = useBand (saveCurrent ?t)"
    using assms by (simp add: modeSwitch_def)
  have b: "bandType (theBand (saveCurrent ?t)) \<noteq> FM_BAND_TYPE"
    using assms(2) by (subst saveCurrent_bandType) (simp add: theBand_def)
  show "currentMode (modeSwitch s) = USB"
    by (simp add: m useBand_mode b saveCurrent_frame assms)
  show "ssbLoaded (modeSwitch s)"
    by (simp add: m useBand_ssbLoaded b saveCurrent_frame assms)
  show "patchLoads (trace (modeSwitch s)) = patchLoads (trace s)"
    by (simp add: m useBand_patchLoads saveCurrent_frame)
qed

lemma modeSwitch_USB:
  assumes "currentMode s = USB" "bandType (theBand s) \<noteq> FM_BAND_TYPE"
  shows "currentMode (modeSwitch s) = AM" "\<not> ssbLoaded (modeSwitch s)" "\<not> bfoOn (modeSwitch s)"
    "patchLoads (trace (modeSwitch s)) = patchLoads (trace s)"
proof -
  let ?t = "s\<lparr>currentMode := AM, ssbLoaded := False, bfoOn := False\<rparr>"
  have m: "modeSwitch s = useBand (saveCurrent ?t)"
    using assms by (simp add: modeSwitch_def)
  have b: "bandType (theBand (saveCurrent ?t)) \<noteq> FM_BAND_TYPE"
    using assms(2) by (subst saveCurrent_bandType) (simp add: theBand_def)
  show "currentMode (modeSwitch s) = AM"
    by (simp add: m useBand_mode b saveCurrent_frame assms)
  show "\<not> ssbLoaded (modeSwitch s)"
    by (simp add: m useBand_ssbLoaded b saveCurrent_frame assms)
  show "\<not> bfoOn (modeSwitch s)"
    by (simp add: m useBand_bfoOn b saveCurrent_frame assms)
  show "patchLoads (trace (modeSwitch s)) = patchLoads (trace s)"
    by (simp add: m useBand_patchLoads saveCurrent_frame)
qed

lemma modeSwitch_bandType: "bandType (theBand (modeSwitch s)) = bandType (theBand s)"
proof -
  have "bandType (theBand (useBand (saveCurrent t))) = bandType (theBand t)" for t
    using saveCurrent_bandType[of t]
    by (simp add: theBand_def useBand_band)
  moreover have "theBand ((loadSSB s)\<lparr>currentMode := LSB\<rparr>) = theBand s"
    by (simp add: theBand_def loadSSB_frame)
  ultimately show ?thesis
    by (simp add: modeSwitch_def theBand_def)
qed

lemma loop_MODE:
  assumes "scan i = Some MODE_SWITCH"
  shows "currentMode (loop i s) = currentMode (modeSwitch (encoderPart i s))"
    "ssbLoaded (loop i s) = ssbLoaded (modeSwitch (encoderPart i s))"
    "bfoOn (loop i s) = bfoOn (modeSwitch (encoderPart i s))"
    "patchLoads (trace (loop i s)) = patchLoads (trace (modeSwitch (encoderPart i s)))"
    "bandType (theBand (loop i s)) = bandType (theBand s)"
proof -
  show "bandType (theBand (loop i s)) = bandType (theBand s)"
    using modeSwitch_bandType[of "encoderPart i s"]
    by (simp add: theBand_def loop_frame scan_MODE[OF assms] encoderPart_frame)
qed (simp_all add: loop_frame scan_MODE[OF assms])

lemma pass_AM:
  assumes "scan i = Some MODE_SWITCH" "currentMode s = AM" "bandType (theBand s) \<noteq> FM_BAND_TYPE"
  shows "currentMode (loop i s) = LSB" "ssbLoaded (loop i s)"
    "patchLoads (trace (loop i s)) = patchLoads (trace s) + 1"
    "bandType (theBand (loop i s)) \<noteq> FM_BAND_TYPE"
  using assms modeSwitch_AM[of "encoderPart i s"]
  by (simp_all add: loop_MODE encoderPart_frame theBand_encoderPart)

lemma pass_LSB:
  assumes "scan i = Some MODE_SWITCH" "currentMode s = LSB" "ssbLoaded s"
    "bandType (theBand s) \<noteq> FM_BAND_TYPE"
  shows "currentMode (loop i s) = USB" "ssbLoaded (loop i s)"
    "patchLoads (trace (loop i s)) = patchLoads (trace s)"
    "bandType (theBand (loop i s)) \<noteq> FM_BAND_TYPE"
  using assms modeSwitch_LSB[of "encoderPart i s"]
  by (simp_all add: loop_MODE encoderPart_frame theBand_encoderPart)

lemma pass_USB:
  assumes "scan i = Some MODE_SWITCH" "currentMode s = USB" 
    "bandType (theBand s) \<noteq> FM_BAND_TYPE"
  shows "currentMode (loop i s) = AM" "\<not> ssbLoaded (loop i s)" "\<not> bfoOn (loop i s)"
    "patchLoads (trace (loop i s)) = patchLoads (trace s)"
    "bandType (theBand (loop i s)) \<noteq> FM_BAND_TYPE"
  using assms modeSwitch_USB[of "encoderPart i s"]
  by (simp_all add: loop_MODE encoderPart_frame theBand_encoderPart)



section \<open>The example states\<close>

lemma scan_press:
  "scan (press MODE_SWITCH) = Some MODE_SWITCH"
  "scan (press BFO_SWITCH) = Some BFO_SWITCH"
  "scan (press BANDWIDTH_BUTTON) = Some BANDWIDTH_BUTTON"
  "scan (press STEP_SWITCH) = Some STEP_SWITCH"
  by (simp_all add: scan_def press_def buttonScanOrder_def)

lemma stateLW_facts:
  "currentMode stateLW = AM"
  "bandType (theBand stateLW) \<noteq> FM_BAND_TYPE"
  "\<not> ssbLoaded stateLW"
  "\<not> bfoOn stateLW"
  "currentStep stateLW = 1"
  "bwIdxAM stateLW = 1"
  "bwIdxSSB stateLW = 2"
  unfolding stateLW_def by code_simp+

lemma reachable_states:
  "reachable stateLW" "reachable stateLSB" "reachable stateUSB" "reachable stateBFO"
  unfolding stateLW_def stateLSB_def stateUSB_def stateBFO_def
  by (intro reachable.intros)+

lemma stateLSB_facts:
  "currentMode stateLSB = LSB"
  "ssbLoaded stateLSB"
  "patchLoads (trace stateLSB) = patchLoads (trace stateLW) + 1"
  "bandType (theBand stateLSB) \<noteq> FM_BAND_TYPE"
  "\<not> bfoOn stateLSB"
proof -
  note a = pass_AM[OF scan_press(1) stateLW_facts(1) stateLW_facts(2)]
  show "currentMode stateLSB = LSB" "ssbLoaded stateLSB"
    "patchLoads (trace stateLSB) = patchLoads (trace stateLW) + 1"
    "bandType (theBand stateLSB) \<noteq> FM_BAND_TYPE"
    unfolding stateLSB_def by (rule a)+
  have "bfoOn stateLSB = bfoOn stateLW"
    unfolding stateLSB_def
    using modeSwitch_AM(4)[of "encoderPart (press MODE_SWITCH) stateLW"] stateLW_facts
    by (simp add: loop_MODE(3)[OF scan_press(1)] encoderPart_frame theBand_encoderPart)
  then show "\<not> bfoOn stateLSB" by (simp add: stateLW_facts)
qed

lemma stateUSB_facts:
  "currentMode stateUSB = USB"
  "ssbLoaded stateUSB"
  "bandType (theBand stateUSB) \<noteq> FM_BAND_TYPE"
proof -
  note a = pass_LSB[OF scan_press(1) stateLSB_facts(1) stateLSB_facts(2) stateLSB_facts(4)]
  show "currentMode stateUSB = USB" "ssbLoaded stateUSB"
    "bandType (theBand stateUSB) \<noteq> FM_BAND_TYPE"
    unfolding stateUSB_def by (rule a)+
qed

lemma stateUSB_next:
  "currentMode (loop (press MODE_SWITCH) stateUSB) = AM"
  "\<not> ssbLoaded (loop (press MODE_SWITCH) stateUSB)"
  "\<not> bfoOn (loop (press MODE_SWITCH) stateUSB)"
  by (rule pass_USB[OF scan_press(1) stateUSB_facts(1) stateUSB_facts(3)])+

lemma stateBFO_facts:
  "currentMode stateBFO = LSB"
  "bfoOn stateBFO"
  unfolding stateBFO_def
  using stateLSB_facts
  by (simp_all add: loop_frame scan_BFO[OF scan_press(2)] bfoSwitch_frame encoderPart_frame)

section \<open>The patch loader\<close>

text \<open>
  Claim C3, as amended. Every run of \<open>loadSSB\<close> makes exactly these calls, in this order:
  reset, query of the library id, patch power-up, a delay of 50 ms, download of the patch,
  the SSB configuration with the current \<open>bwIdxSSB\<close> as bandwidth (and 1, 0, 0, 0, 1), a
  delay of 25 ms; then \<open>ssbLoaded\<close> is true. There is no delay between the download and
  the configuration.
\<close>

theorem loadSSB_trace:
  "callsDuring loadSSB s =
     [si4735 si4735_reset, si4735 si4735_queryLibraryId, si4735 si4735_patchPowerUp, delay 50,
      si4735 si4735_downloadPatch, si4735 (si4735_setSSBConfig (bwIdxSSB s) 1 0 0 0 1),
      delay 25] \<and>
   trace (loadSSB s) = trace s @ callsDuring loadSSB s \<and>
   ssbLoaded (loadSSB s)"
  by (simp add: callsDuring_def loadSSB_def emit_def)

text \<open>
  The trace that claim C3 words, with a delay between the download and the configuration,
  is not the trace of \<open>loadSSB\<close> on the initial globals.
\<close>

theorem loadSSB_trace_counterexample:
  "\<not> spec_loadSSB_trace (bwIdxSSB init) (callsDuring loadSSB init)"
  by (simp add: spec_loadSSB_trace_def callsDuring_def loadSSB_def emit_def init_def)

section \<open>Band up and band down\<close>

lemma bandUp_idx: "bandIdx (bandUp s) = upIdx (bandIdx s)"
  by (simp add: bandUp_def Let_def useBand_band saveCurrent_frame upIdx_def)

lemma bandDown_idx: "bandIdx (bandDown s) = downIdx (bandIdx s)"
  by (simp add: bandDown_def Let_def useBand_band saveCurrent_frame downIdx_def)

lemma bandUp_pow_idx: "bandIdx ((bandUp ^^ n) s) = (upIdx ^^ n) (bandIdx s)"
  by (induction n) (simp_all add: bandUp_idx)

lemma bandDown_pow_idx: "bandIdx ((bandDown ^^ n) s) = (downIdx ^^ n) (bandIdx s)"
  by (induction n) (simp_all add: bandDown_idx)

lemma upIdx_range: "0 \<le> k \<Longrightarrow> k \<le> lastBand \<Longrightarrow> 0 \<le> upIdx k \<and> upIdx k \<le> lastBand"
  by (simp add: upIdx_def lastBand_19)

lemma downIdx_range: "0 \<le> k \<Longrightarrow> k \<le> lastBand \<Longrightarrow> 0 \<le> downIdx k \<and> downIdx k \<le> lastBand"
  by (simp add: downIdx_def lastBand_19)

lemma down_up: "0 \<le> k \<Longrightarrow> k \<le> lastBand \<Longrightarrow> downIdx (upIdx k) = k"
  by (simp add: upIdx_def downIdx_def lastBand_19)

lemma up_down: "0 \<le> k \<Longrightarrow> k \<le> lastBand \<Longrightarrow> upIdx (downIdx k) = k"
  by (simp add: upIdx_def downIdx_def lastBand_19)

lemma down_up_pow:
  "0 \<le> k \<Longrightarrow> k \<le> lastBand \<Longrightarrow> (downIdx ^^ n) ((upIdx ^^ n) k) = k"
proof (induction n arbitrary: k)
  case 0
  then show ?case by simp
next
  case (Suc n)
  have r: "0 \<le> upIdx k \<and> upIdx k \<le> lastBand" using Suc.prems by (rule upIdx_range)
  have "(downIdx ^^ Suc n) ((upIdx ^^ Suc n) k) = downIdx ((downIdx ^^ n) ((upIdx ^^ n) (upIdx k)))"
    by (simp add: funpow_swap1)
  also have "\<dots> = downIdx (upIdx k)" using Suc.IH r by simp
  also have "\<dots> = k" using Suc.prems by (rule down_up)
  finally show ?case .
qed

lemma up_down_pow:
  "0 \<le> k \<Longrightarrow> k \<le> lastBand \<Longrightarrow> (upIdx ^^ n) ((downIdx ^^ n) k) = k"
proof (induction n arbitrary: k)
  case 0
  then show ?case by simp
next
  case (Suc n)
  have r: "0 \<le> downIdx k \<and> downIdx k \<le> lastBand" using Suc.prems by (rule downIdx_range)
  have "(upIdx ^^ Suc n) ((downIdx ^^ Suc n) k) = upIdx ((upIdx ^^ n) ((downIdx ^^ n) (downIdx k)))"
    by (simp add: funpow_swap1)
  also have "\<dots> = upIdx (downIdx k)" using Suc.IH r by simp
  also have "\<dots> = k" using Suc.prems by (rule up_down)
  finally show ?case .
qed

lemma bandUp_band: "band (bandUp s) = band (saveCurrent s)"
  by (simp add: bandUp_def Let_def useBand_band)

lemma bandDown_band: "band (bandDown s) = band (saveCurrent s)"
  by (simp add: bandDown_def Let_def useBand_band)

text \<open>
  Claim C2. From every valid band index and for every \<open>n\<close>, \<open>n\<close> band-ups followed by
  \<open>n\<close> band-downs, or the reverse, give back the band index. A single band-up or
  band-down is: save \<open>currentFrequency\<close> and \<open>currentStep\<close> into the outgoing band's
  entry, move the index circularly (up wraps from \<open>lastBand\<close> to 0, down from 0 to
  \<open>lastBand\<close>), run \<open>useBand\<close>; afterwards the table differs from the old one exactly by
  the saved entry.
\<close>

theorem band_round_trip:
  assumes "0 \<le> bandIdx s" and "bandIdx s \<le> lastBand"
  shows
    "bandIdx ((bandDown ^^ n) ((bandUp ^^ n) s)) = bandIdx s \<and>
     bandIdx ((bandUp ^^ n) ((bandDown ^^ n) s)) = bandIdx s \<and>
     bandUp s = useBand ((saveCurrent s)\<lparr>bandIdx :=
                  (if bandIdx s = lastBand then 0 else bandIdx s + 1)\<rparr>) \<and>
     bandDown s = useBand ((saveCurrent s)\<lparr>bandIdx :=
                  (if bandIdx s = 0 then lastBand else bandIdx s - 1)\<rparr>) \<and>
     band (bandUp s) = (band s)[nat (bandIdx s) :=
        (band s ! nat (bandIdx s))\<lparr>currentFreq := currentFrequency s,
                                  band_currentStep := ucast (currentStep s)\<rparr>] \<and>
     band (bandDown s) = band (bandUp s)"
proof -
  have 1: "bandIdx ((bandDown ^^ n) ((bandUp ^^ n) s)) = bandIdx s"
    using assms by (simp add: bandDown_pow_idx bandUp_pow_idx down_up_pow)
  have 2: "bandIdx ((bandUp ^^ n) ((bandDown ^^ n) s)) = bandIdx s"
    using assms by (simp add: bandDown_pow_idx bandUp_pow_idx up_down_pow)
  have 3: "bandUp s = useBand ((saveCurrent s)\<lparr>bandIdx :=
                  (if bandIdx s = lastBand then 0 else bandIdx s + 1)\<rparr>)"
    using assms by (simp add: bandUp_def Let_def saveCurrent_frame)
  have 4: "bandDown s = useBand ((saveCurrent s)\<lparr>bandIdx :=
                  (if bandIdx s = 0 then lastBand else bandIdx s - 1)\<rparr>)"
    using assms by (simp add: bandDown_def Let_def saveCurrent_frame)
  have 5: "band (bandUp s) = (band s)[nat (bandIdx s) :=
        (band s ! nat (bandIdx s))\<lparr>currentFreq := currentFrequency s,
                                  band_currentStep := ucast (currentStep s)\<rparr>]"
    by (simp add: bandUp_band saveCurrent_band)
  have 6: "band (bandDown s) = band (bandUp s)"
    by (simp add: bandUp_band bandDown_band)
  show ?thesis using 1 2 3 4 5 6 by blast
qed

theorem band_round_trip_witness:
  "0 \<le> bandIdx (setupRadio 10570 init) \<and> bandIdx (setupRadio 10570 init) \<le> lastBand \<and>
   bandIdx ((bandDown ^^ 23) ((bandUp ^^ 23) (setupRadio 10570 init))) = 0 \<and>
   bandIdx ((bandUp ^^ 23) ((bandDown ^^ 23) (setupRadio 10570 init))) = 0"
proof -
  have a: "bandIdx (setupRadio 10570 init) = 0" by code_simp
  have b: "0 \<le> bandIdx (setupRadio 10570 init)" "bandIdx (setupRadio 10570 init) \<le> lastBand"
    by (simp_all add: a lastBand_19)
  show ?thesis using band_round_trip[OF b, of 23] b by (simp add: a)
qed

section \<open>The frequency field\<close>


lemma showFrequency_oldMode:
  "oldMode (showFrequency s) =
     (if currentFrequency s < 520 then ''LW  '' else bandModeDesc (currentMode s))"
  by (simp add: showFrequency_def Let_def emit_def printValue_snd split: prod.splits)

lemma showFrequency_oldUnit:
  "oldUnit (showFrequency s) =
     (if bandType (theBand s) = FM_BAND_TYPE then ''MHz'' else ''KHz'')"
  by (simp add: showFrequency_def Let_def emit_def printValue_snd split: prod.splits)

lemma showFrequency_displayBuffer:
  "displayBuffer (showFrequency s) =
     (let tmp = sprintf_5u (currentFrequency s);
          freq = (if bandType (theBand s) = FM_BAND_TYPE
                  then [tmp ! 0, tmp ! 1, tmp ! 2, CHR ''.'', tmp ! 3, tmp ! 4]
                  else [tmp ! 0, tmp ! 1, tmp ! 2, tmp ! 3, tmp ! 4])
      in if \<not> bfoOn s then freq else ''>'' @ freq @ ''<'')"
  by (simp add: showFrequency_def Let_def emit_def printValue_snd split: prod.splits)

lemma showFrequency_oldFreq: "oldFreq (showFrequency s) = displayBuffer (showFrequency s)"
  by (simp add: showFrequency_def Let_def emit_def printValue_snd split: prod.splits)

lemma sprintf_10570: "sprintf_5u 10570 = ''10570''"
  by (simp add: sprintf_5u_def decimal.simps digitChar_def)

lemma sprintf_7200: "sprintf_5u 7200 = '' 7200''"
  by (simp add: sprintf_5u_def decimal.simps digitChar_def)

lemma setup_FM:
  "bandType (theBand (setupRadio 10570 init)) = FM_BAND_TYPE"
  "currentFrequency (setupRadio 10570 init) = 10570"
  "\<not> bfoOn (setupRadio 10570 init)"
  by code_simp+

lemma band7_SW:
  "bandType (theBand (useBand (init\<lparr>bandIdx := 7\<rparr>))) = SW_BAND_TYPE"
  "currentFrequency (useBand (init\<lparr>bandIdx := 7\<rparr>)) = 7200"
  "\<not> bfoOn (useBand (init\<lparr>bandIdx := 7\<rparr>))"
  "currentMode (useBand (init\<lparr>bandIdx := 7\<rparr>)) = AM"
  by code_simp+

lemma band7_LSB:
  "bandType (theBand (useBand (init\<lparr>bandIdx := 7, currentMode := LSB, ssbLoaded := True\<rparr>))) = SW_BAND_TYPE"
  "currentFrequency (useBand (init\<lparr>bandIdx := 7, currentMode := LSB, ssbLoaded := True\<rparr>)) = 7200"
  "currentMode (useBand (init\<lparr>bandIdx := 7, currentMode := LSB, ssbLoaded := True\<rparr>)) = LSB"
  by code_simp+

text \<open>
  Claim C5, as amended. With BFO adjustment off, on a band of FM type the value 10570 is
  rendered as \<open>105.70\<close> with unit \<open>MHz\<close> (the point goes after the third character of the
  five-character rendering). On a band of SW type in mode AM the value 7200 is rendered
  as \<open>7200\<close> preceded by one space (the \<open>%5u\<close> format pads with spaces, not zeros), with
  unit \<open>KHz\<close> and mode label \<open>AM\<close> followed by one space.
\<close>

theorem showFrequency_format:
  "(bandType (theBand s) = FM_BAND_TYPE \<and> currentFrequency s = 10570 \<and> \<not> bfoOn s \<longrightarrow>
      displayBuffer (showFrequency s) = ''105.70'' \<and> oldFreq (showFrequency s) = ''105.70'' \<and>
      oldUnit (showFrequency s) = ''MHz'') \<and>
   (bandType (theBand s) = SW_BAND_TYPE \<and> currentFrequency s = 7200 \<and> \<not> bfoOn s \<and>
    currentMode s = AM \<longrightarrow>
      displayBuffer (showFrequency s) = '' 7200'' \<and> oldFreq (showFrequency s) = '' 7200'' \<and>
      oldUnit (showFrequency s) = ''KHz'' \<and> oldMode (showFrequency s) = ''AM '')"
  by (simp add: showFrequency_oldFreq showFrequency_displayBuffer showFrequency_oldUnit
      showFrequency_oldMode sprintf_10570 sprintf_7200)

theorem showFrequency_format_witness:
  "bandType (theBand (setupRadio 10570 init)) = FM_BAND_TYPE \<and>
   currentFrequency (setupRadio 10570 init) = 10570 \<and>
   \<not> bfoOn (setupRadio 10570 init) \<and>
   displayBuffer (showFrequency (setupRadio 10570 init)) = ''105.70'' \<and>
   oldUnit (showFrequency (setupRadio 10570 init)) = ''MHz'' \<and>
   bandType (theBand (useBand (init\<lparr>bandIdx := 7\<rparr>))) = SW_BAND_TYPE \<and>
   currentFrequency (useBand (init\<lparr>bandIdx := 7\<rparr>)) = 7200 \<and>
   \<not> bfoOn (useBand (init\<lparr>bandIdx := 7\<rparr>)) \<and>
   currentMode (useBand (init\<lparr>bandIdx := 7\<rparr>)) = AM \<and>
   displayBuffer (showFrequency (useBand (init\<lparr>bandIdx := 7\<rparr>))) = '' 7200'' \<and>
   oldUnit (showFrequency (useBand (init\<lparr>bandIdx := 7\<rparr>))) = ''KHz'' \<and>
   oldMode (showFrequency (useBand (init\<lparr>bandIdx := 7\<rparr>))) = ''AM ''"
  using showFrequency_format [of "setupRadio 10570 init"]
    showFrequency_format [of "useBand (init\<lparr>bandIdx := 7\<rparr>)"]
    setup_FM band7_SW
  by simp

text \<open>
  Claim C5 as worded asks for \<open>07200\<close>: on the 40 m band (index 7, SW type) tuned to 7200
  the rendered field is not that string. And on the same band at the same frequency in
  mode LSB the mode label is not the one of AM.
\<close>

theorem showFrequency_format_counterexample:
  "bandType (theBand (useBand (init\<lparr>bandIdx := 7\<rparr>))) = SW_BAND_TYPE \<and>
   currentFrequency (useBand (init\<lparr>bandIdx := 7\<rparr>)) = 7200 \<and>
   displayBuffer (showFrequency (useBand (init\<lparr>bandIdx := 7\<rparr>))) \<noteq> ''07200'' \<and>
   bandType (theBand (useBand (init\<lparr>bandIdx := 7, currentMode := LSB, ssbLoaded := True\<rparr>))) =
     SW_BAND_TYPE \<and>
   currentFrequency (useBand (init\<lparr>bandIdx := 7, currentMode := LSB, ssbLoaded := True\<rparr>)) =
     7200 \<and>
   oldMode (showFrequency
     (useBand (init\<lparr>bandIdx := 7, currentMode := LSB, ssbLoaded := True\<rparr>))) \<noteq> ''AM ''"
  using band7_SW band7_LSB
  by (simp add: showFrequency_displayBuffer showFrequency_oldMode sprintf_7200 word_less_nat_alt)

section \<open>The differential renderer\<close>

lemma upt_0_Suc: "[0..<Suc m] = 0 # map Suc [0..<m]"
  by (simp add: upt_conv_Cons map_Suc_upt del: upt_Suc)

lemma redraw_Cons:
  "redraw c l sp (a # xs) (b # ys) (Suc k) = redraw (c + sp) l sp xs ys k"
  by (simp add: redraw_def algebra_simps)

lemma glyphAt_Cons: "glyphAt c l sp (a # xs) (Suc k) = glyphAt (c + sp) l sp xs k"
  by (simp add: glyphAt_def algebra_simps)

lemma redraw_0:
  "redraw c l sp (a # xs) (b # ys) 0 =
     (if a \<noteq> b then
        [oled (oled_setTextColor SSD1306_BLACK), oled (oled_setCursor c l), oled (oled_write a),
         oled (oled_setTextColor SSD1306_WHITE), oled (oled_setCursor c l), oled (oled_write b)]
      else [])"
  by (simp add: redraw_def)

lemma glyphAt_0: "glyphAt c l sp (a # xs) 0 = [oled (oled_setCursor c l), oled (oled_write a)]"
  by (simp add: glyphAt_def)

lemma changedDigits_eq:
  "changedDigits c l sp xs ys =
     (concat (map (redraw c l sp xs ys) [0 ..< min (length xs) (length ys)]),
      c + int (min (length xs) (length ys)) * sp,
      drop (min (length xs) (length ys)) xs,
      drop (min (length xs) (length ys)) ys)"
proof (induction c l sp xs ys rule: changedDigits.induct)
  case (1 c line space a pOld b pNew)
  have "concat (map (redraw c line space (a # pOld) (b # pNew))
          [0..<Suc (min (length pOld) (length pNew))]) =
        redraw c line space (a # pOld) (b # pNew) 0 @
        concat (map (redraw (c + space) line space pOld pNew)
          [0..<min (length pOld) (length pNew)])"
    by (simp add: upt_0_Suc comp_def redraw_Cons del: upt_Suc)
  then show ?case
    using 1 by (simp add: redraw_0 algebra_simps del: upt_Suc)
qed simp_all

lemma eraseRest_eq:
  "eraseRest c l sp xs =
     (concat (map (glyphAt c l sp xs) [0 ..< length xs]), c + int (length xs) * sp)"
proof (induction c l sp xs rule: eraseRest.induct)
  case (1 c line space)
  then show ?case by simp
next
  case (2 c line space a pOld)
  have "concat (map (glyphAt c line space (a # pOld)) [0..<Suc (length pOld)]) =
        glyphAt c line space (a # pOld) 0 @
        concat (map (glyphAt (c + space) line space pOld) [0..<length pOld])"
    by (simp add: upt_0_Suc comp_def glyphAt_Cons del: upt_Suc)
  then show ?case
    using 2 by (simp add: glyphAt_0 algebra_simps del: upt_Suc)
qed

lemma printRest_eq: "printRest c l sp xs = eraseRest c l sp xs"
  by (induction c l sp xs rule: printRest.induct) simp_all

lemma glyphAt_drop:
  "m \<le> length xs \<Longrightarrow>
   concat (map (glyphAt (c + int m * sp) l sp (drop m xs)) [0 ..< length xs - m]) =
   concat (map (glyphAt c l sp xs) [m ..< length xs])"
proof -
  assume m: "m \<le> length xs"
  have a: "[m ..< length xs] = map (\<lambda>k. k + m) [0 ..< length xs - m]"
    using m by (simp add: map_add_upt)
  have b: "map (glyphAt (c + int m * sp) l sp (drop m xs)) [0 ..< length xs - m] =
           map (\<lambda>k. glyphAt c l sp xs (k + m)) [0 ..< length xs - m]"
    using m by (intro map_cong refl) (simp add: glyphAt_def algebra_simps)
  show ?thesis
    by (simp only: a b map_map comp_def)
qed

lemma printValue_calls:
  "fst (printValue col line oldValue newValue space) =
     [oled (oled_setCursor 38 0), oled (oled_write (firstChar newValue)),
      oled (oled_write (firstChar oldValue))] @
     spec_printValue col line oldValue newValue space"
proof (cases "length oldValue \<le> length newValue")
  case True
  then have m: "min (length oldValue) (length newValue) = length oldValue" by simp
  show ?thesis
    using True glyphAt_drop[of "length oldValue" newValue col space line]
    by (simp add: printValue_def changedDigits_eq eraseRest_eq printRest_eq m
        spec_printValue_def)
next
  case False
  then have m: "min (length oldValue) (length newValue) = length newValue" by simp
  show ?thesis
    using False glyphAt_drop[of "length newValue" oldValue col space line]
    by (simp add: printValue_def changedDigits_eq eraseRest_eq printRest_eq m
        spec_printValue_def)
qed

text \<open>
  Claim C4. The claim says that \<open>printValue\<close> touches only the glyphs that differ and the
  trailing ones. The code starts every call with three more display calls: it moves the
  cursor to (38, 0) and writes the first character of the new text and the first character
  of the old text there; what follows is the rendering that the claim describes. For the
  old text \<open>10570\<close> and the new text \<open>10580\<close> at column 38, the calls are those two
  writes of the unchanged first digit, then the erase and redraw of the one digit that
  differs, at column 59; the claim's rendering is the erase and redraw alone.
\<close>

theorem printValue_extra_writes:
  "fst (printValue col line oldValue newValue space) =
     [oled (oled_setCursor 38 0), oled (oled_write (firstChar newValue)),
      oled (oled_write (firstChar oldValue))] @
     spec_printValue col line oldValue newValue space \<and>
   fst (printValue 38 0 ''10570'' ''10580'' 7) =
     [oled (oled_setCursor 38 0), oled (oled_write CHR ''1''), oled (oled_write CHR ''1''),
      oled (oled_setTextColor SSD1306_BLACK), oled (oled_setCursor 59 0),
      oled (oled_write CHR ''7''),
      oled (oled_setTextColor SSD1306_WHITE), oled (oled_setCursor 59 0),
      oled (oled_write CHR ''8''),
      oled (oled_setTextColor SSD1306_BLACK), oled (oled_setTextColor SSD1306_WHITE)] \<and>
   spec_printValue 38 0 ''10570'' ''10580'' 7 =
     [oled (oled_setTextColor SSD1306_BLACK), oled (oled_setCursor 59 0),
      oled (oled_write CHR ''7''),
      oled (oled_setTextColor SSD1306_WHITE), oled (oled_setCursor 59 0),
      oled (oled_write CHR ''8''),
      oled (oled_setTextColor SSD1306_BLACK), oled (oled_setTextColor SSD1306_WHITE)]"
proof -
  have a: "fst (printValue 38 0 ''10570'' ''10580'' 7) =
     [oled (oled_setCursor 38 0), oled (oled_write CHR ''1''), oled (oled_write CHR ''1''),
      oled (oled_setTextColor SSD1306_BLACK), oled (oled_setCursor 59 0),
      oled (oled_write CHR ''7''),
      oled (oled_setTextColor SSD1306_WHITE), oled (oled_setCursor 59 0),
      oled (oled_write CHR ''8''),
      oled (oled_setTextColor SSD1306_BLACK), oled (oled_setTextColor SSD1306_WHITE)]"
    by (simp add: printValue_def Let_def firstChar_def)
  have b: "spec_printValue 38 0 ''10570'' ''10580'' 7 =
     [oled (oled_setTextColor SSD1306_BLACK), oled (oled_setCursor 59 0),
      oled (oled_write CHR ''7''),
      oled (oled_setTextColor SSD1306_WHITE), oled (oled_setCursor 59 0),
      oled (oled_write CHR ''8''),
      oled (oled_setTextColor SSD1306_BLACK), oled (oled_setTextColor SSD1306_WHITE)]"
    using a printValue_calls [of 38 0 "''10570''" "''10580''" 7] by simp
  show ?thesis
    using a b printValue_calls by blast
qed

section \<open>The bandwidth button and the step switch\<close>

lemma bw_wrap5: "(if (b::8 word) + 1 > 5 then 0 else b + 1) = (if 5 \<le> b then 0 else b + 1)"
  by unat_arith

lemma bw_wrap6: "(if (b::8 word) + 1 > 6 then 0 else b + 1) = (if 6 \<le> b then 0 else b + 1)"
  by unat_arith

lemma bandwidthButton_SSB:
  assumes "currentMode s = LSB \<or> currentMode s = USB"
  shows "bwIdxSSB (bandwidthButton s) = (if 5 \<le> bwIdxSSB s then 0 else bwIdxSSB s + 1)"
    "bwIdxAM (bandwidthButton s) = bwIdxAM s"
    "trace (bandwidthButton s) = trace s @
       [si4735_rx (si4735_setSSBAudioBandwidth (bwIdxSSB (bandwidthButton s))),
        si4735_rx (si4735_setSBBSidebandCutoffFilter
          (if bwIdxSSB (bandwidthButton s) = 0 \<or> bwIdxSSB (bandwidthButton s) = 4 \<or>
              bwIdxSSB (bandwidthButton s) = 5 then 0 else 1)),
        delay 100]"
  using assms bw_wrap5[of "bwIdxSSB s"]
  by (auto simp add: bandwidthButton_def Let_def emit_def showStatus_def split: if_splits)

lemma bandwidthButton_AM:
  assumes "currentMode s = AM"
  shows "bwIdxAM (bandwidthButton s) = (if 6 \<le> bwIdxAM s then 0 else bwIdxAM s + 1)"
    "bwIdxSSB (bandwidthButton s) = bwIdxSSB s"
    "trace (bandwidthButton s) = trace s @
       [si4735_rx (si4735_setBandwidth (bwIdxAM (bandwidthButton s)) 1), delay 100]"
  using assms bw_wrap6[of "bwIdxAM s"]
  by (auto simp add: bandwidthButton_def Let_def emit_def showStatus_def split: if_splits)

lemma callsDuring_append: "trace (f s) = trace s @ es \<Longrightarrow> callsDuring f s = es"
  by (simp add: callsDuring_def)

text \<open>
  Claim C7. When the button section runs the branch of the bandwidth button: in LSB or
  USB, \<open>bwIdxSSB\<close> goes up by one and wraps from 5 to 0, the new index is sent as SSB audio
  bandwidth, then the sideband cutoff filter is set to 0 exactly when the new index is 0, 4
  or 5 and to 1 otherwise; in AM, \<open>bwIdxAM\<close> goes up by one, wraps from 6 to 0 and is sent
  as AM bandwidth. From \<open>bwIdxSSB = 5\<close> the index becomes 0 and the filter is set to 0.
\<close>

theorem bandwidth_button:
  assumes "scan i = Some BANDWIDTH_BUTTON"
  shows
    "(currentMode s = LSB \<or> currentMode s = USB \<longrightarrow>
        bwIdxSSB (buttonPart i s) = (if 5 \<le> bwIdxSSB s then 0 else bwIdxSSB s + 1) \<and>
        bwIdxAM (buttonPart i s) = bwIdxAM s \<and>
        callsDuring (buttonPart i) s =
          [si4735_rx (si4735_setSSBAudioBandwidth (bwIdxSSB (buttonPart i s))),
           si4735_rx (si4735_setSBBSidebandCutoffFilter
             (if bwIdxSSB (buttonPart i s) = 0 \<or> bwIdxSSB (buttonPart i s) = 4 \<or>
                 bwIdxSSB (buttonPart i s) = 5 then 0 else 1)),
           delay 100]) \<and>
     (currentMode s = AM \<longrightarrow>
        bwIdxAM (buttonPart i s) = (if 6 \<le> bwIdxAM s then 0 else bwIdxAM s + 1) \<and>
        bwIdxSSB (buttonPart i s) = bwIdxSSB s \<and>
        callsDuring (buttonPart i) s =
          [si4735_rx (si4735_setBandwidth (bwIdxAM (buttonPart i s)) 1), delay 100]) \<and>
     ((currentMode s = LSB \<or> currentMode s = USB) \<and> bwIdxSSB s = 5 \<longrightarrow>
        bwIdxSSB (buttonPart i s) = 0 \<and>
        callsDuring (buttonPart i) s =
          [si4735_rx (si4735_setSSBAudioBandwidth 0),
           si4735_rx (si4735_setSBBSidebandCutoffFilter 0), delay 100])"
proof -
  have b: "buttonPart i = bandwidthButton"
    using scan_BW[OF assms] by (rule ext)
  have 1: "currentMode s = LSB \<or> currentMode s = USB \<Longrightarrow>
        bwIdxSSB (buttonPart i s) = (if 5 \<le> bwIdxSSB s then 0 else bwIdxSSB s + 1) \<and>
        bwIdxAM (buttonPart i s) = bwIdxAM s \<and>
        callsDuring (buttonPart i) s =
          [si4735_rx (si4735_setSSBAudioBandwidth (bwIdxSSB (buttonPart i s))),
           si4735_rx (si4735_setSBBSidebandCutoffFilter
             (if bwIdxSSB (buttonPart i s) = 0 \<or> bwIdxSSB (buttonPart i s) = 4 \<or>
                 bwIdxSSB (buttonPart i s) = 5 then 0 else 1)),
           delay 100]"
    unfolding b
    by (intro conjI callsDuring_append bandwidthButton_SSB)
  have 2: "currentMode s = AM \<Longrightarrow>
        bwIdxAM (buttonPart i s) = (if 6 \<le> bwIdxAM s then 0 else bwIdxAM s + 1) \<and>
        bwIdxSSB (buttonPart i s) = bwIdxSSB s \<and>
        callsDuring (buttonPart i) s =
          [si4735_rx (si4735_setBandwidth (bwIdxAM (buttonPart i s)) 1), delay 100]"
    unfolding b
    by (intro conjI callsDuring_append bandwidthButton_AM)
  have 3: "(currentMode s = LSB \<or> currentMode s = USB) \<and> bwIdxSSB s = 5 \<Longrightarrow>
        bwIdxSSB (buttonPart i s) = 0 \<and>
        callsDuring (buttonPart i) s =
          [si4735_rx (si4735_setSSBAudioBandwidth 0),
           si4735_rx (si4735_setSBBSidebandCutoffFilter 0), delay 100]"
    using 1 by simp
  show ?thesis using 1 2 3 by blast
qed

theorem bandwidth_button_witness:
  "scan (press BANDWIDTH_BUTTON) = Some BANDWIDTH_BUTTON \<and>
   currentMode (stateLSB\<lparr>bwIdxSSB := 5\<rparr>) = LSB \<and>
   bwIdxSSB (buttonPart (press BANDWIDTH_BUTTON) (stateLSB\<lparr>bwIdxSSB := 5\<rparr>)) = 0 \<and>
   callsDuring (buttonPart (press BANDWIDTH_BUTTON)) (stateLSB\<lparr>bwIdxSSB := 5\<rparr>) =
     [si4735_rx (si4735_setSSBAudioBandwidth 0),
      si4735_rx (si4735_setSBBSidebandCutoffFilter 0), delay 100] \<and>
   currentMode (stateLSB\<lparr>bwIdxSSB := 2\<rparr>) = LSB \<and>
   bwIdxSSB (buttonPart (press BANDWIDTH_BUTTON) (stateLSB\<lparr>bwIdxSSB := 2\<rparr>)) = 3 \<and>
   callsDuring (buttonPart (press BANDWIDTH_BUTTON)) (stateLSB\<lparr>bwIdxSSB := 2\<rparr>) =
     [si4735_rx (si4735_setSSBAudioBandwidth 3),
      si4735_rx (si4735_setSBBSidebandCutoffFilter 1), delay 100] \<and>
   currentMode stateLW = AM \<and> bwIdxAM stateLW = 1 \<and>
   bwIdxAM (buttonPart (press BANDWIDTH_BUTTON) stateLW) = 2 \<and>
   callsDuring (buttonPart (press BANDWIDTH_BUTTON)) stateLW =
     [si4735_rx (si4735_setBandwidth 2 1), delay 100]"
  using bandwidth_button [OF scan_press(3), of "stateLSB\<lparr>bwIdxSSB := 5\<rparr>"]
    bandwidth_button [OF scan_press(3), of "stateLSB\<lparr>bwIdxSSB := 2\<rparr>"]
    bandwidth_button [OF scan_press(3), of stateLW]
    scan_press stateLSB_facts stateLW_facts
  by (simp add: word_le_nat_alt)

lemma stepSwitch_step:
  assumes "currentMode s \<noteq> FM" "\<not> (bfoOn s \<and> (currentMode s = LSB \<or> currentMode s = USB))"
  shows "currentStep (stepSwitch s) =
           (if currentStep s = 1 then 5 else if currentStep s = 5 then 10 else 1)"
    "trace (stepSwitch s) = trace s @
       [si4735_rx (si4735_setFrequencyStep (currentStep (stepSwitch s))), delay 100]"
    "band (stepSwitch s) = (band s)[nat (bandIdx s) :=
       (band s ! nat (bandIdx s))\<lparr>band_currentStep := ucast (currentStep (stepSwitch s))\<rparr>]"
    "currentBFOStep (stepSwitch s) = currentBFOStep s"
    "bandIdx (stepSwitch s) = bandIdx s"
  using assms
  by (auto simp add: stepSwitch_def Let_def emit_def showStatus_def theBand_def)

lemma stepSwitch_FM:
  assumes "currentMode s = FM"
  shows "fmStereo (stepSwitch s) = (\<not> fmStereo s)"
    "currentStep (stepSwitch s) = currentStep s"
    "band (stepSwitch s) = band s"
    "trace (stepSwitch s) = trace s @
       [si4735_rx (if fmStereo (stepSwitch s) then si4735_setFmStereoOn else si4735_setFmStereoOff)]"
  using assms
  by (auto simp add: stepSwitch_def Let_def emit_def)

lemma stepSwitch_BFO:
  assumes "bfoOn s" "currentMode s = LSB \<or> currentMode s = USB"
  shows "currentBFOStep (stepSwitch s) = (if currentBFOStep s = 25 then 10 else 25)"
    "currentStep (stepSwitch s) = currentStep s"
    "band (stepSwitch s) = band s"
    "trace (stepSwitch s) = trace s @ [delay 100]"
  using assms
  by (auto simp add: stepSwitch_def Let_def emit_def showBFO_def)

text \<open>
  Claim C8. When the button section runs the branch of the step switch in a mode other
  than FM with BFO adjustment off, \<open>currentStep\<close> goes from 1 to 5, from 5 to 10 and from
  any other value to 1; the new step is sent to the tuner and stored in the entry of the
  active band, and in no other entry. In FM the branch toggles \<open>fmStereo\<close> and leaves the
  step alone; in LSB or USB with BFO adjustment on it toggles \<open>currentBFOStep\<close> between 25
  and 10. \<open>bandUp\<close> and \<open>bandDown\<close> store \<open>currentStep\<close> in the outgoing band's entry and
  load the step of the band they switch to.
\<close>

theorem step_button:
  assumes "scan i = Some STEP_SWITCH"
  shows
    "(currentMode s \<noteq> FM \<and> \<not> bfoOn s \<longrightarrow>
        currentStep (buttonPart i s) =
          (if currentStep s = 1 then 5 else if currentStep s = 5 then 10 else 1) \<and>
        callsDuring (buttonPart i) s =
          [si4735_rx (si4735_setFrequencyStep (currentStep (buttonPart i s))), delay 100] \<and>
        band (buttonPart i s) = (band s)[nat (bandIdx s) :=
          (band s ! nat (bandIdx s))
            \<lparr>band_currentStep := ucast (currentStep (buttonPart i s))\<rparr>]) \<and>
     (currentMode s \<noteq> FM \<and> \<not> bfoOn s \<and> currentStep s = 1 \<longrightarrow>
        currentStep (buttonPart i s) = 5 \<and>
        currentStep (buttonPart i (buttonPart i s)) = 10 \<and>
        currentStep (buttonPart i (buttonPart i (buttonPart i s))) = 1) \<and>
     (currentMode s = FM \<longrightarrow>
        fmStereo (buttonPart i s) = (\<not> fmStereo s) \<and>
        currentStep (buttonPart i s) = currentStep s \<and> band (buttonPart i s) = band s) \<and>
     ((currentMode s = LSB \<or> currentMode s = USB) \<and> bfoOn s \<longrightarrow>
        currentBFOStep (buttonPart i s) = (if currentBFOStep s = 25 then 10 else 25) \<and>
        currentStep (buttonPart i s) = currentStep s \<and> band (buttonPart i s) = band s) \<and>
     band (bandUp s) = (band s)[nat (bandIdx s) :=
        (band s ! nat (bandIdx s))\<lparr>currentFreq := currentFrequency s,
                                  band_currentStep := ucast (currentStep s)\<rparr>] \<and>
     band (bandDown s) = band (bandUp s) \<and>
     currentStep (bandUp s) = ucast (band_currentStep (theBand (bandUp s))) \<and>
     currentStep (bandDown s) = ucast (band_currentStep (theBand (bandDown s)))"
proof -
  have b: "buttonPart i = stepSwitch"
    using scan_STEP[OF assms] by (rule ext)
  have 1: "currentMode s \<noteq> FM \<and> \<not> bfoOn s \<Longrightarrow>
        currentStep (buttonPart i s) =
          (if currentStep s = 1 then 5 else if currentStep s = 5 then 10 else 1) \<and>
        callsDuring (buttonPart i) s =
          [si4735_rx (si4735_setFrequencyStep (currentStep (buttonPart i s))), delay 100] \<and>
        band (buttonPart i s) = (band s)[nat (bandIdx s) :=
          (band s ! nat (bandIdx s))
            \<lparr>band_currentStep := ucast (currentStep (buttonPart i s))\<rparr>]"
    unfolding b by (intro conjI callsDuring_append stepSwitch_step) simp_all
  have 2: "currentMode s \<noteq> FM \<and> \<not> bfoOn s \<and> currentStep s = 1 \<Longrightarrow>
        currentStep (buttonPart i s) = 5 \<and>
        currentStep (buttonPart i (buttonPart i s)) = 10 \<and>
        currentStep (buttonPart i (buttonPart i (buttonPart i s))) = 1"
    unfolding b by (simp add: stepSwitch_step(1) stepSwitch_frame)
  have 3: "currentMode s = FM \<Longrightarrow>
        fmStereo (buttonPart i s) = (\<not> fmStereo s) \<and>
        currentStep (buttonPart i s) = currentStep s \<and> band (buttonPart i s) = band s"
    unfolding b by (simp add: stepSwitch_FM)
  have 4: "(currentMode s = LSB \<or> currentMode s = USB) \<and> bfoOn s \<Longrightarrow>
        currentBFOStep (buttonPart i s) = (if currentBFOStep s = 25 then 10 else 25) \<and>
        currentStep (buttonPart i s) = currentStep s \<and> band (buttonPart i s) = band s"
    unfolding b by (simp add: stepSwitch_BFO)
  have 5: "band (bandUp s) = (band s)[nat (bandIdx s) :=
        (band s ! nat (bandIdx s))\<lparr>currentFreq := currentFrequency s,
                                  band_currentStep := ucast (currentStep s)\<rparr>]"
    by (simp add: bandUp_band saveCurrent_band)
  have 6: "band (bandDown s) = band (bandUp s)"
    by (simp add: bandUp_band bandDown_band)
  have 7: "currentStep (bandUp s) = ucast (band_currentStep (theBand (bandUp s)))"
    by (simp add: bandUp_def Let_def useBand_currentStep theBand_def useBand_band)
  have 8: "currentStep (bandDown s) = ucast (band_currentStep (theBand (bandDown s)))"
    by (simp add: bandDown_def Let_def useBand_currentStep theBand_def useBand_band)
  show ?thesis using 1 2 3 4 5 6 7 8 by blast
qed

theorem step_button_witness:
  "scan (press STEP_SWITCH) = Some STEP_SWITCH \<and>
   currentMode stateLW = AM \<and> \<not> bfoOn stateLW \<and> currentStep stateLW = 1 \<and>
   currentStep (buttonPart (press STEP_SWITCH) stateLW) = 5 \<and>
   currentStep (buttonPart (press STEP_SWITCH) (buttonPart (press STEP_SWITCH) stateLW)) = 10 \<and>
   currentStep (buttonPart (press STEP_SWITCH) (buttonPart (press STEP_SWITCH)
     (buttonPart (press STEP_SWITCH) stateLW))) = 1 \<and>
   callsDuring (buttonPart (press STEP_SWITCH)) stateLW =
     [si4735_rx (si4735_setFrequencyStep 5), delay 100] \<and>
   currentMode (setupRadio 10570 init) = FM \<and>
   fmStereo (buttonPart (press STEP_SWITCH) (setupRadio 10570 init)) =
     (\<not> fmStereo (setupRadio 10570 init)) \<and>
   currentMode stateBFO = LSB \<and> bfoOn stateBFO \<and>
   currentBFOStep (buttonPart (press STEP_SWITCH) stateBFO) =
     (if currentBFOStep stateBFO = 25 then 10 else 25)"
  using step_button [OF scan_press(4), of stateLW]
    step_button [OF scan_press(4), of "setupRadio 10570 init"]
    step_button [OF scan_press(4), of stateBFO]
    scan_press stateLW_facts stateBFO_facts setupRadio_init(1)
  by simp

section \<open>Invariants of the reachable states\<close>










lemma buttonPart_scan:
  "buttonPart i s = (case scan i of None \<Rightarrow> s | Some p \<Rightarrow> branch p i s)"
  by (simp add: buttonPart_def scan_def buttonScanOrder_def)

lemma theBand_useBand: "theBand (useBand s) = theBand s"
  by (simp add: theBand_def useBand_band)

lemma bandUp_summary:
  "currentMode (bandUp s) =
     (if bandType (theBand (bandUp s)) = FM_BAND_TYPE then FM
      else if ssbLoaded s then currentMode s else AM)"
  "ssbLoaded (bandUp s) = (bandType (theBand (bandUp s)) \<noteq> FM_BAND_TYPE \<and> ssbLoaded s)"
  "bfoOn (bandUp s) =
     (bandType (theBand (bandUp s)) \<noteq> FM_BAND_TYPE \<and> ssbLoaded s \<and> bfoOn s)"
  "patchLoads (trace (bandUp s)) = patchLoads (trace s)"
  by (simp_all add: bandUp_def Let_def theBand_useBand useBand_mode useBand_ssbLoaded
      useBand_bfoOn useBand_patchLoads saveCurrent_frame)

lemma bandDown_summary:
  "currentMode (bandDown s) =
     (if bandType (theBand (bandDown s)) = FM_BAND_TYPE then FM
      else if ssbLoaded s then currentMode s else AM)"
  "ssbLoaded (bandDown s) = (bandType (theBand (bandDown s)) \<noteq> FM_BAND_TYPE \<and> ssbLoaded s)"
  "bfoOn (bandDown s) =
     (bandType (theBand (bandDown s)) \<noteq> FM_BAND_TYPE \<and> ssbLoaded s \<and> bfoOn s)"
  "patchLoads (trace (bandDown s)) = patchLoads (trace s)"
  by (simp_all add: bandDown_def Let_def theBand_useBand useBand_mode useBand_ssbLoaded
      useBand_bfoOn useBand_patchLoads saveCurrent_frame)

lemma modeSwitch_FM: "currentMode s = FM \<Longrightarrow> modeSwitch s = s"
  by (simp add: modeSwitch_def)

lemma modeSwitch_useBand:
  "currentMode s \<noteq> FM \<Longrightarrow>
   modeSwitch s = useBand (saveCurrent
     (if currentMode s = AM then (loadSSB s)\<lparr>currentMode := LSB\<rparr>
      else if currentMode s = LSB then s\<lparr>currentMode := USB\<rparr>
      else s\<lparr>currentMode := AM, ssbLoaded := False, bfoOn := False\<rparr>))"
  by (cases "currentMode s") (simp_all add: modeSwitch_def)

lemma theBand_mode_upd:
  "theBand (s\<lparr>currentMode := m\<rparr>) = theBand s"
  "theBand (s\<lparr>currentMode := m, ssbLoaded := x, bfoOn := y\<rparr>) = theBand s"
  "theBand ((loadSSB s)\<lparr>currentMode := m\<rparr>) = theBand s"
  "theBand (loadSSB s) = theBand s"
  by (simp_all add: theBand_def loadSSB_frame)

lemmas modeSwitch_unfold =
  modeSwitch_FM modeSwitch_useBand useBand_mode useBand_ssbLoaded useBand_bfoOn
  useBand_patchLoads saveCurrent_bandType theBand_mode_upd saveCurrent_frame loadSSB_frame

lemma modeSwitch_mode:
  "currentMode (modeSwitch s) =
     (if currentMode s = FM then FM
      else if bandType (theBand s) = FM_BAND_TYPE then FM
      else if currentMode s = AM then LSB
      else if currentMode s = LSB \<and> ssbLoaded s then USB
      else AM)"
  by (cases "currentMode s") (simp_all add: modeSwitch_unfold)

lemma modeSwitch_ssbLoaded:
  "ssbLoaded (modeSwitch s) =
     (if currentMode s = FM then ssbLoaded s
      else bandType (theBand s) \<noteq> FM_BAND_TYPE \<and>
           (currentMode s = AM \<or> (currentMode s = LSB \<and> ssbLoaded s)))"
  by (cases "currentMode s") (simp_all add: modeSwitch_unfold)

lemma modeSwitch_bfoOn:
  "bfoOn (modeSwitch s) =
     (if currentMode s = FM then bfoOn s
      else bandType (theBand s) \<noteq> FM_BAND_TYPE \<and> bfoOn s \<and>
           (currentMode s = AM \<or> (currentMode s = LSB \<and> ssbLoaded s)))"
  by (cases "currentMode s") (auto simp add: modeSwitch_unfold)

lemma modeSwitch_patchLoads:
  "patchLoads (trace (modeSwitch s)) =
     (if currentMode s = AM then patchLoads (trace s) + 1 else patchLoads (trace s))"
  by (cases "currentMode s") (simp_all add: modeSwitch_unfold)

lemmas modeSwitch_summary =
  modeSwitch_mode modeSwitch_ssbLoaded modeSwitch_bfoOn modeSwitch_patchLoads

lemmas branch_summaries =
  bandwidthButton_frame volUp_frame volDown_frame agcSwitch_frame stepSwitch_frame
  bfoSwitch_frame bandUp_summary bandDown_summary modeSwitch_summary

lemma branch_ssb:
  assumes "currentMode s = LSB \<or> currentMode s = USB \<longrightarrow> ssbLoaded s"
  shows "currentMode (branch p i s) = LSB \<or> currentMode (branch p i s) = USB
           \<longrightarrow> ssbLoaded (branch p i s)"
  using assms
  by (cases p; cases "currentMode s"; cases "bandType (theBand s) = FM_BAND_TYPE";
      cases "ssbLoaded s"; simp add: branch_summaries split: if_splits)

lemma branch_bfo:
  assumes "bfoOn s \<longrightarrow> currentMode s = LSB \<or> currentMode s = USB"
  shows "bfoOn (branch p i s) \<longrightarrow>
           currentMode (branch p i s) = LSB \<or> currentMode (branch p i s) = USB"
  using assms
  by (cases p; cases "currentMode s"; cases "bandType (theBand s) = FM_BAND_TYPE";
      cases "ssbLoaded s"; simp add: branch_summaries split: if_splits)

lemma branch_to_LSB:
  assumes "currentMode (branch p i s) = LSB" "currentMode s \<noteq> LSB"
  shows "ssbLoaded (branch p i s)"
    "patchLoads (trace (branch p i s)) = patchLoads (trace s) + 1"
    "p = MODE_SWITCH" "currentMode s = AM"
  using assms
  by (cases p; cases "currentMode s"; cases "bandType (theBand s) = FM_BAND_TYPE";
      cases "ssbLoaded s"; simp add: branch_summaries split: if_splits)+

lemma branch_to_USB:
  assumes "currentMode (branch p i s) = USB" "currentMode s \<noteq> USB"
  shows "currentMode s = LSB" "p = MODE_SWITCH"
  using assms
  by (cases p; cases "currentMode s"; cases "bandType (theBand s) = FM_BAND_TYPE";
      cases "ssbLoaded s"; simp add: branch_summaries split: if_splits)+

lemma branch_unload:
  assumes "ssbLoaded s" "\<not> ssbLoaded (branch p i s)"
  shows "currentMode (branch p i s) = FM \<or> currentMode (branch p i s) = AM"
  using assms
  by (cases p; cases "currentMode s"; cases "bandType (theBand s) = FM_BAND_TYPE";
      cases "ssbLoaded s"; simp add: branch_summaries split: if_splits)

lemma branch_bfo_on:
  assumes "bfoOn (branch p i s)" "\<not> bfoOn s"
  shows "p = BFO_SWITCH" "currentMode s = LSB \<or> currentMode s = USB"
  using assms
  by (cases p; cases "currentMode s"; cases "bandType (theBand s) = FM_BAND_TYPE";
      cases "ssbLoaded s"; simp add: branch_summaries split: if_splits)+

lemma branch_leave_ssb:
  assumes "currentMode s = LSB \<or> currentMode s = USB"
    "\<not> (currentMode (branch p i s) = LSB \<or> currentMode (branch p i s) = USB)"
  shows "\<not> bfoOn (branch p i s)"
  using assms
  by (cases p; cases "currentMode s"; cases "bandType (theBand s) = FM_BAND_TYPE";
      cases "ssbLoaded s"; simp add: branch_summaries split: if_splits)

lemma buttonPart_ssb:
  assumes "currentMode s = LSB \<or> currentMode s = USB \<longrightarrow> ssbLoaded s"
  shows "currentMode (buttonPart i s) = LSB \<or> currentMode (buttonPart i s) = USB
           \<longrightarrow> ssbLoaded (buttonPart i s)"
  using assms branch_ssb[OF assms]
  by (cases "scan i") (simp_all add: buttonPart_scan)

lemma buttonPart_bfo:
  assumes "bfoOn s \<longrightarrow> currentMode s = LSB \<or> currentMode s = USB"
  shows "bfoOn (buttonPart i s) \<longrightarrow>
           currentMode (buttonPart i s) = LSB \<or> currentMode (buttonPart i s) = USB"
  using assms branch_bfo[OF assms]
  by (cases "scan i") (simp_all add: buttonPart_scan)

lemma buttonPart_to_LSB:
  assumes "currentMode (buttonPart i s) = LSB" "currentMode s \<noteq> LSB"
  shows "ssbLoaded (buttonPart i s)"
    "patchLoads (trace (buttonPart i s)) = patchLoads (trace s) + 1"
    "scan i = Some MODE_SWITCH" "currentMode s = AM"
proof -
  obtain p where p: "scan i = Some p"
    using assms by (cases "scan i") (simp_all add: buttonPart_scan)
  then have b: "buttonPart i s = branch p i s" by (simp add: buttonPart_scan)
  note c = branch_to_LSB[OF assms[unfolded b]]
  show "ssbLoaded (buttonPart i s)" unfolding b by (rule c)
  show "patchLoads (trace (buttonPart i s)) = patchLoads (trace s) + 1" unfolding b by (rule c)
  show "scan i = Some MODE_SWITCH" using p c(3) by simp
  show "currentMode s = AM" by (rule c)
qed

lemma buttonPart_to_USB:
  assumes "currentMode (buttonPart i s) = USB" "currentMode s \<noteq> USB"
  shows "currentMode s = LSB" "scan i = Some MODE_SWITCH"
proof -
  obtain p where p: "scan i = Some p"
    using assms by (cases "scan i") (simp_all add: buttonPart_scan)
  then have b: "buttonPart i s = branch p i s" by (simp add: buttonPart_scan)
  note c = branch_to_USB[OF assms[unfolded b]]
  show "currentMode s = LSB" by (rule c)
  show "scan i = Some MODE_SWITCH" using p c(2) by simp
qed

lemma buttonPart_unload:
  assumes "ssbLoaded s" "\<not> ssbLoaded (buttonPart i s)"
  shows "currentMode (buttonPart i s) = FM \<or> currentMode (buttonPart i s) = AM"
proof -
  obtain p where p: "scan i = Some p"
    using assms by (cases "scan i") (simp_all add: buttonPart_scan)
  then have b: "buttonPart i s = branch p i s" by (simp add: buttonPart_scan)
  show ?thesis unfolding b by (rule branch_unload[OF assms[unfolded b]])
qed

lemma buttonPart_bfo_on:
  assumes "bfoOn (buttonPart i s)" "\<not> bfoOn s"
  shows "scan i = Some BFO_SWITCH" "currentMode s = LSB \<or> currentMode s = USB"
proof -
  obtain p where p: "scan i = Some p"
    using assms by (cases "scan i") (simp_all add: buttonPart_scan)
  then have b: "buttonPart i s = branch p i s" by (simp add: buttonPart_scan)
  note c = branch_bfo_on[OF assms[unfolded b]]
  show "scan i = Some BFO_SWITCH" using p c(1) by simp
  show "currentMode s = LSB \<or> currentMode s = USB" by (rule c)
qed

lemma buttonPart_leave_ssb:
  assumes "currentMode s = LSB \<or> currentMode s = USB"
    "\<not> (currentMode (buttonPart i s) = LSB \<or> currentMode (buttonPart i s) = USB)"
  shows "\<not> bfoOn (buttonPart i s)"
proof -
  obtain p where p: "scan i = Some p"
    using assms by (cases "scan i") (simp_all add: buttonPart_scan)
  then have b: "buttonPart i s = branch p i s" by (simp add: buttonPart_scan)
  show ?thesis unfolding b by (rule branch_leave_ssb[OF assms[unfolded b]])
qed

lemma loop_ssb:
  assumes "currentMode s = LSB \<or> currentMode s = USB \<longrightarrow> ssbLoaded s"
  shows "currentMode (loop i s) = LSB \<or> currentMode (loop i s) = USB \<longrightarrow> ssbLoaded (loop i s)"
  using buttonPart_ssb[of "encoderPart i s" i] assms
  by (simp add: loop_frame encoderPart_frame)

lemma loop_bfo:
  assumes "bfoOn s \<longrightarrow> currentMode s = LSB \<or> currentMode s = USB"
  shows "bfoOn (loop i s) \<longrightarrow> currentMode (loop i s) = LSB \<or> currentMode (loop i s) = USB"
  using buttonPart_bfo[of "encoderPart i s" i] assms
  by (simp add: loop_frame encoderPart_frame)

lemma reachable_ssb:
  "reachable s \<Longrightarrow> currentMode s = LSB \<or> currentMode s = USB \<longrightarrow> ssbLoaded s"
proof (induction rule: reachable.induct)
  case (boot freqRead)
  show ?case by (simp add: setupRadio_init)
next
  case (pass s i)
  from pass.IH show ?case by (rule loop_ssb)
next
  case (interrupt s DIR_CW encoderStatus)
  then show ?case by (simp add: rotaryEncoder_frame)
qed

lemma reachable_bfo:
  "reachable s \<Longrightarrow> bfoOn s \<longrightarrow> currentMode s = LSB \<or> currentMode s = USB"
proof (induction rule: reachable.induct)
  case (boot freqRead)
  show ?case by (simp add: setupRadio_init)
next
  case (pass s i)
  from pass.IH show ?case by (rule loop_bfo)
next
  case (interrupt s DIR_CW encoderStatus)
  then show ?case by (simp add: rotaryEncoder_frame)
qed

lemma useBand_forced_AM:
  "\<not> ssbLoaded s \<Longrightarrow> bandType (theBand s) \<noteq> FM_BAND_TYPE \<Longrightarrow>
   currentMode (useBand s) = AM \<and> \<not> bfoOn (useBand s)"
  by (simp add: useBand_mode useBand_bfoOn)

text \<open>
  Claim C6. In every reachable state, mode LSB or USB implies \<open>ssbLoaded\<close>. A pass of
  \<open>loop\<close> that enters LSB starts in AM, runs the branch of the mode switch, performs one
  patch load and ends with \<open>ssbLoaded\<close> set; a pass that enters USB starts in LSB; a pass
  that clears \<open>ssbLoaded\<close> ends in FM or AM; and \<open>useBand\<close> on a band that is not of FM
  type with \<open>ssbLoaded\<close> false sets the mode to AM.
\<close>

theorem ssb_mode_invariant:
  "(reachable s \<longrightarrow> (currentMode s = LSB \<or> currentMode s = USB \<longrightarrow> ssbLoaded s)) \<and>
   (currentMode (loop i t) = LSB \<and> currentMode t \<noteq> LSB \<longrightarrow>
      currentMode t = AM \<and> scan i = Some MODE_SWITCH \<and> ssbLoaded (loop i t) \<and>
      patchLoads (trace (loop i t)) = patchLoads (trace t) + 1) \<and>
   (currentMode (loop i t) = USB \<and> currentMode t \<noteq> USB \<longrightarrow> currentMode t = LSB) \<and>
   (ssbLoaded t \<and> \<not> ssbLoaded (loop i t) \<longrightarrow>
      currentMode (loop i t) = FM \<or> currentMode (loop i t) = AM) \<and>
   (\<not> ssbLoaded t \<and> bandType (theBand t) \<noteq> FM_BAND_TYPE \<longrightarrow> currentMode (useBand t) = AM)"
proof (intro conjI impI)
  assume "reachable s" and "currentMode s = LSB \<or> currentMode s = USB"
  then show "ssbLoaded s" using reachable_ssb by blast
next
  assume a: "currentMode (loop i t) = LSB \<and> currentMode t \<noteq> LSB"
  then have b: "currentMode (buttonPart i (encoderPart i t)) = LSB"
    "currentMode (encoderPart i t) \<noteq> LSB"
    by (simp_all add: loop_frame encoderPart_frame)
  show "currentMode t = AM"
    using buttonPart_to_LSB(4)[OF b] by (simp add: encoderPart_frame)
  show "scan i = Some MODE_SWITCH"
    using buttonPart_to_LSB(3)[OF b] .
  show "ssbLoaded (loop i t)"
    using buttonPart_to_LSB(1)[OF b] by (simp add: loop_frame)
  show "patchLoads (trace (loop i t)) = patchLoads (trace t) + 1"
    using buttonPart_to_LSB(2)[OF b] by (simp add: loop_frame encoderPart_frame)
next
  assume a: "currentMode (loop i t) = USB \<and> currentMode t \<noteq> USB"
  then have b: "currentMode (buttonPart i (encoderPart i t)) = USB"
    "currentMode (encoderPart i t) \<noteq> USB"
    by (simp_all add: loop_frame encoderPart_frame)
  show "currentMode t = LSB"
    using buttonPart_to_USB(1)[OF b] by (simp add: encoderPart_frame)
next
  assume a: "ssbLoaded t \<and> \<not> ssbLoaded (loop i t)"
  then have b: "ssbLoaded (encoderPart i t)" "\<not> ssbLoaded (buttonPart i (encoderPart i t))"
    by (simp_all add: loop_frame encoderPart_frame)
  show "currentMode (loop i t) = FM \<or> currentMode (loop i t) = AM"
    using buttonPart_unload[OF b] by (simp add: loop_frame)
next
  assume "\<not> ssbLoaded t \<and> bandType (theBand t) \<noteq> FM_BAND_TYPE"
  then show "currentMode (useBand t) = AM"
    using useBand_forced_AM by blast
qed

theorem ssb_mode_invariant_witness:
  "reachable stateLSB \<and> currentMode stateLSB = LSB \<and> ssbLoaded stateLSB \<and>
   currentMode stateLW = AM \<and>
   currentMode (loop (press MODE_SWITCH) stateLW) = LSB \<and>
   patchLoads (trace (loop (press MODE_SWITCH) stateLW)) = patchLoads (trace stateLW) + 1 \<and>
   currentMode (loop (press MODE_SWITCH) stateLSB) = USB \<and>
   ssbLoaded stateUSB \<and> \<not> ssbLoaded (loop (press MODE_SWITCH) stateUSB) \<and>
   currentMode (loop (press MODE_SWITCH) stateUSB) = AM \<and>
   \<not> ssbLoaded stateLW \<and> bandType (theBand stateLW) \<noteq> FM_BAND_TYPE \<and>
   currentMode (useBand stateLW) = AM"
  using ssb_mode_invariant [of stateLSB "press MODE_SWITCH" stateLW]
    ssb_mode_invariant [of stateLSB "press MODE_SWITCH" stateLSB]
    ssb_mode_invariant [of stateLSB "press MODE_SWITCH" stateUSB]
    reachable_states stateLW_facts stateLSB_facts stateUSB_facts stateUSB_next
    stateLSB_def [symmetric] stateUSB_def [symmetric]
  by simp

text \<open>
  Claim C10. In every reachable state, \<open>bfoOn\<close> implies mode LSB or USB. A pass of \<open>loop\<close>
  that turns \<open>bfoOn\<close> on runs the branch of the BFO switch in mode LSB or USB; a pass
  that leaves the modes LSB and USB ends with \<open>bfoOn\<close> false.
\<close>

theorem bfo_mode_invariant:
  "(reachable s \<longrightarrow> (bfoOn s \<longrightarrow> currentMode s = LSB \<or> currentMode s = USB)) \<and>
   (bfoOn (loop i t) \<and> \<not> bfoOn t \<longrightarrow>
      scan i = Some BFO_SWITCH \<and> (currentMode t = LSB \<or> currentMode t = USB)) \<and>
   ((currentMode t = LSB \<or> currentMode t = USB) \<and>
    \<not> (currentMode (loop i t) = LSB \<or> currentMode (loop i t) = USB) \<longrightarrow>
      \<not> bfoOn (loop i t))"
proof (intro conjI impI)
  assume "reachable s" and "bfoOn s"
  then show "currentMode s = LSB \<or> currentMode s = USB" using reachable_bfo by blast
next
  assume a: "bfoOn (loop i t) \<and> \<not> bfoOn t"
  then have b: "bfoOn (buttonPart i (encoderPart i t))" "\<not> bfoOn (encoderPart i t)"
    by (simp_all add: loop_frame encoderPart_frame)
  show "scan i = Some BFO_SWITCH"
    using buttonPart_bfo_on(1)[OF b] .
  show "currentMode t = LSB \<or> currentMode t = USB"
    using buttonPart_bfo_on(2)[OF b] by (simp add: encoderPart_frame)
next
  assume a: "(currentMode t = LSB \<or> currentMode t = USB) \<and>
    \<not> (currentMode (loop i t) = LSB \<or> currentMode (loop i t) = USB)"
  then have b: "currentMode (encoderPart i t) = LSB \<or> currentMode (encoderPart i t) = USB"
    "\<not> (currentMode (buttonPart i (encoderPart i t)) = LSB \<or>
        currentMode (buttonPart i (encoderPart i t)) = USB)"
    by (simp_all add: loop_frame encoderPart_frame)
  show "\<not> bfoOn (loop i t)"
    using buttonPart_leave_ssb[OF b] by (simp add: loop_frame)
qed

theorem bfo_mode_invariant_witness:
  "reachable stateBFO \<and> bfoOn stateBFO \<and> currentMode stateBFO = LSB \<and>
   \<not> bfoOn stateLSB \<and> bfoOn (loop (press BFO_SWITCH) stateLSB) \<and>
   scan (press BFO_SWITCH) = Some BFO_SWITCH \<and> currentMode stateLSB = LSB \<and>
   currentMode stateUSB = USB \<and> currentMode (loop (press MODE_SWITCH) stateUSB) = AM \<and>
   \<not> bfoOn (loop (press MODE_SWITCH) stateUSB)"
  using bfo_mode_invariant [of stateBFO "press BFO_SWITCH" stateLSB]
    bfo_mode_invariant [of stateBFO "press MODE_SWITCH" stateUSB]
    reachable_states stateLSB_facts stateUSB_facts stateUSB_next stateBFO_facts scan_press
    stateBFO_def [symmetric]
  by simp

section \<open>The mode label on the display\<close>















































end
